theory Spec2Isabelle
  imports Complex_Main "HOL-Library.AList" "HOL-Library.Log_Nat"
begin

section \<open>Conversation cost estimation: pricing table, resolver and aggregation\<close>

text \<open>
  The development embeds the pricing module (\<^verbatim>\<open>PRICING_CONFIG\<close>,
  \<^verbatim>\<open>getPricingForDate\<close>, \<^verbatim>\<open>calculateCost\<close>, \<^verbatim>\<open>getModelInfo\<close>) and
  the service \<^verbatim>\<open>api/server/services/ConversationCost.js\<close>
  (\<^verbatim>\<open>calculateConversationCost\<close>, \<^verbatim>\<open>getConversationCostDisplay\<close>,
  \<^verbatim>\<open>getMultipleConversationCosts\<close>).

  Conventions of the embedding.
  \<^item> A JavaScript number that holds money is a finite double (IEEE 754 binary64),
    given by its exact value, a \<^typ>\<open>rat\<close>. Every division, multiplication and addition
    of the source rounds its exact result to the nearest double, a tie going to the even
    mantissa, and a decimal literal of the source denotes the nearest double. Overflow,
    \<^verbatim>\<open>NaN\<close> and the infinities are outside the model.
  \<^item> Token counts are integers, below \<open>2\<^sup>5\<^sup>3\<close> in absolute value, where the
    arithmetic of doubles on integers is exact.
  \<^item> An optional property is an \<open>option\<close>; \<open>None\<close> is \<^verbatim>\<open>undefined\<close>.
  \<^item> A \<^verbatim>\<open>Date\<close> is its time value in milliseconds since the epoch, or the invalid
    date, whose time value is \<^verbatim>\<open>NaN\<close>.
  \<^item> A \<^verbatim>\<open>throw\<close> is the left summand of the result.
\<close>

subsection \<open>Errors, dates and numbers\<close>

datatype error = TypeError | RangeError | FetchError

datatype jsdate = Date int | InvalidDate

text \<open>
  Relational comparison of two dates compares the time values; every comparison with
  \<^verbatim>\<open>NaN\<close> is false.
\<close>

fun date_ge :: "jsdate \<Rightarrow> jsdate \<Rightarrow> bool" where
  "date_ge (Date a) (Date b) = (b \<le> a)"
| "date_ge _ _ = False"

fun date_le :: "jsdate \<Rightarrow> jsdate \<Rightarrow> bool" where
  "date_le (Date a) (Date b) = (a \<le> b)"
| "date_le _ _ = False"

fun date_gt :: "jsdate \<Rightarrow> jsdate \<Rightarrow> bool" where
  "date_gt (Date a) (Date b) = (b < a)"
| "date_gt _ _ = False"

text \<open>
  \<^verbatim>\<open>new Date(x)\<close> for a property \<^verbatim>\<open>x\<close> that holds a date or is absent:
  \<^verbatim>\<open>new Date(undefined)\<close> is the invalid date.
\<close>

fun new_Date :: "int option \<Rightarrow> jsdate" where
  "new_Date None = InvalidDate"
| "new_Date (Some t) = Date t"

text \<open>
  The time value of the ISO string \<^verbatim>\<open>YYYY-MM-DDTHH:mm:ssZ\<close>: days since the epoch
  in the proleptic Gregorian calendar, then milliseconds.
\<close>

definition days_from_civil :: "int \<Rightarrow> int \<Rightarrow> int \<Rightarrow> int" where
  "days_from_civil y m d =
     (let y' = (if m \<le> 2 then y - 1 else y);
          era = y' div 400;
          yoe = y' - era * 400;
          doy = (153 * (if 2 < m then m - 3 else m + 9) + 2) div 5 + d - 1;
          doe = yoe * 365 + yoe div 4 - yoe div 100 + doy
      in era * 146097 + doe - 719468)"

definition utc :: "int \<Rightarrow> int \<Rightarrow> int \<Rightarrow> int \<Rightarrow> int \<Rightarrow> int \<Rightarrow> int" where
  "utc y m d h mi s = (((days_from_civil y m d * 24 + h) * 60 + mi) * 60 + s) * 1000"

text \<open>Truthiness of an optional number: present and not zero.\<close>

fun truthy_int :: "int option \<Rightarrow> bool" where
  "truthy_int None = False"
| "truthy_int (Some n) = (n \<noteq> 0)"

fun truthy_rat :: "rat option \<Rightarrow> bool" where
  "truthy_rat None = False"
| "truthy_rat (Some q) = (q \<noteq> 0)"

text \<open>\<^verbatim>\<open>x || 0\<close> for an optional number.\<close>

fun or0 :: "int option \<Rightarrow> int" where
  "or0 None = 0"
| "or0 (Some n) = n"

fun or0_rat :: "rat option \<Rightarrow> rat" where
  "or0_rat None = 0"
| "or0_rat (Some q) = q"

text \<open>
  \<^verbatim>\<open>Math.round\<close>: the integer nearest to the value of the argument, a tie going
  up. The sum under the floor is exact, not a sum of doubles: \<^verbatim>\<open>Math.round\<close> of
  0.49999999999999994 is 0.
\<close>

definition Math_round :: "rat \<Rightarrow> int" where
  "Math_round x = \<lfloor>x + 1 / 2\<rfloor>"

subsection \<open>Doubles\<close>

text \<open>Powers of two with an integer exponent.\<close>

definition pow2 :: "int \<Rightarrow> rat" where
  "pow2 k = (if 0 \<le> k then of_int (2 ^ nat k) else 1 / of_int (2 ^ nat (- k)))"

text \<open>
  The binary exponent of a number that is not zero: the integer \<open>k\<close> with
  \<open>2\<^sup>k \<le> |x| < 2\<^sup>k\<^sup>+\<^sup>1\<close>.
\<close>

definition ilog2 :: "rat \<Rightarrow> int" where
  "ilog2 x =
     (if 1 \<le> \<bar>x\<bar> then bitlen \<lfloor>\<bar>x\<bar>\<rfloor> - 1 else - bitlen (\<lceil>1 / \<bar>x\<bar>\<rceil> - 1))"

text \<open>The nearest integer, a tie going to the even one.\<close>

definition roundTiesToEven :: "rat \<Rightarrow> int" where
  "roundTiesToEven m =
     (let f = \<lfloor>m\<rfloor>; r = m - of_int f
      in if r < 1 / 2 then f else if 1 / 2 < r then f + 1 else if even f then f else f + 1)"

text \<open>
  The double nearest to a number: a mantissa of 53 bits, and a spacing of
  \<open>2\<^sup>-\<^sup>1\<^sup>0\<^sup>7\<^sup>4\<close> for the subnormal numbers.
\<close>

definition rd :: "rat \<Rightarrow> rat" where
  "rd x =
     (if x = 0 then 0
      else (let e = max (ilog2 x - 52) (- 1074)
            in of_int (roundTiesToEven (x / pow2 e)) * pow2 e))"

text \<open>The operators \<^verbatim>\<open>+\<close>, \<^verbatim>\<open>*\<close> and \<^verbatim>\<open>/\<close> on doubles.\<close>

definition fadd :: "rat \<Rightarrow> rat \<Rightarrow> rat" where
  "fadd x y = rd (x + y)"

definition fmul :: "rat \<Rightarrow> rat \<Rightarrow> rat" where
  "fmul x y = rd (x * y)"

definition fdiv :: "rat \<Rightarrow> rat \<Rightarrow> rat" where
  "fdiv x y = rd (x / y)"

subsection \<open>The pricing table\<close>

record cachePricing =
  cache_write :: "rat option"
  cache_read :: "rat option"

record reasoningPricing =
  tokens :: "rat option"

record pricingPeriod =
  effectiveFrom :: int
  effectiveTo :: "int option"
  prompt :: rat
  completion :: rat
  cache :: "cachePricing option"
  reasoning :: "reasoningPricing option"
  source :: "string option"
  period_notes :: "string option"

record modelPricing =
  provider :: string
  category :: string
  pricing :: "pricingPeriod list"

text \<open>
  A period with the two required prices and a source, everything else absent. The
  prices of the table are written as decimal literals: each is the nearest double.
\<close>

definition period :: "int \<Rightarrow> rat \<Rightarrow> rat \<Rightarrow> string \<Rightarrow> pricingPeriod" where
  "period from p c src =
     \<lparr>effectiveFrom = from, effectiveTo = None, prompt = rd p, completion = rd c,
      cache = None, reasoning = None, source = Some src, period_notes = None\<rparr>"

definition with_cache :: "rat \<Rightarrow> rat \<Rightarrow> pricingPeriod \<Rightarrow> pricingPeriod" where
  "with_cache w r p =
     p\<lparr>cache := Some \<lparr>cache_write = Some (rd w), cache_read = Some (rd r)\<rparr>\<rparr>"

definition with_reasoning :: "rat \<Rightarrow> pricingPeriod \<Rightarrow> pricingPeriod" where
  "with_reasoning t p = p\<lparr>reasoning := Some \<lparr>tokens = Some (rd t)\<rparr>\<rparr>"

definition openai :: string where "openai = ''https://openai.com/pricing''"
definition anthropic :: string where "anthropic = ''https://www.anthropic.com/pricing''"
definition google :: string where "google = ''https://ai.google.dev/pricing''"
definition mistral :: string where "mistral = ''https://mistral.ai/technology/#pricing''"
definition cohere :: string where "cohere = ''https://cohere.com/pricing''"

definition PRICING_CONFIG :: "(string \<times> modelPricing) list" where
  "PRICING_CONFIG =
   [(''gpt-4o'', \<lparr>provider = ''OpenAI'', category = ''gpt-4o'', pricing =
       [(period (utc 2024 5 13 0 0 0) 5 15 openai)
          \<lparr>period_notes := Some ''Initial GPT-4o release pricing''\<rparr>]\<rparr>),
    (''gpt-4o-mini'', \<lparr>provider = ''OpenAI'', category = ''gpt-4o'', pricing =
       [(period (utc 2024 7 18 0 0 0) (15 / 100) (6 / 10) openai)
          \<lparr>period_notes := Some ''GPT-4o Mini launch pricing''\<rparr>]\<rparr>),
    (''gpt-4'', \<lparr>provider = ''OpenAI'', category = ''gpt-4'', pricing =
       [period (utc 2024 1 1 0 0 0) 30 60 openai]\<rparr>),
    (''gpt-4-turbo'', \<lparr>provider = ''OpenAI'', category = ''gpt-4'', pricing =
       [period (utc 2024 4 9 0 0 0) 10 30 openai]\<rparr>),
    (''gpt-3.5-turbo'', \<lparr>provider = ''OpenAI'', category = ''gpt-3.5'', pricing =
       [period (utc 2024 1 25 0 0 0) (5 / 10) (15 / 10) openai,
        (period (utc 2023 11 6 0 0 0) 1 2 openai)
          \<lparr>effectiveTo := Some (utc 2024 1 24 23 59 59),
           period_notes := Some ''Pre-January 2024 pricing''\<rparr>]\<rparr>),
    (''o1'', \<lparr>provider = ''OpenAI'', category = ''o1'', pricing =
       [with_reasoning 15 (period (utc 2024 12 5 0 0 0) 15 60 openai)]\<rparr>),
    (''o1-mini'', \<lparr>provider = ''OpenAI'', category = ''o1'', pricing =
       [with_reasoning 3 (period (utc 2024 9 12 0 0 0) 3 12 openai)]\<rparr>),
    (''o1-preview'', \<lparr>provider = ''OpenAI'', category = ''o1'', pricing =
       [with_reasoning 15 (period (utc 2024 9 12 0 0 0) 15 60 openai)]\<rparr>),
    (''claude-3-5-sonnet'', \<lparr>provider = ''Anthropic'', category = ''claude-3.5'', pricing =
       [with_cache (375 / 100) (3 / 10) (period (utc 2024 6 20 0 0 0) 3 15 anthropic)]\<rparr>),
    (''claude-3.5-sonnet'', \<lparr>provider = ''Anthropic'', category = ''claude-3.5'', pricing =
       [with_cache (375 / 100) (3 / 10) (period (utc 2024 6 20 0 0 0) 3 15 anthropic)]\<rparr>),
    (''claude-3-5-haiku'', \<lparr>provider = ''Anthropic'', category = ''claude-3.5'', pricing =
       [with_cache 1 (8 / 100) (period (utc 2024 11 1 0 0 0) (8 / 10) 4 anthropic)]\<rparr>),
    (''claude-3.5-haiku'', \<lparr>provider = ''Anthropic'', category = ''claude-3.5'', pricing =
       [with_cache 1 (8 / 100) (period (utc 2024 11 1 0 0 0) (8 / 10) 4 anthropic)]\<rparr>),
    (''claude-3-opus'', \<lparr>provider = ''Anthropic'', category = ''claude-3'', pricing =
       [period (utc 2024 3 4 0 0 0) 15 75 anthropic]\<rparr>),
    (''claude-3-sonnet'', \<lparr>provider = ''Anthropic'', category = ''claude-3'', pricing =
       [period (utc 2024 3 4 0 0 0) 3 15 anthropic]\<rparr>),
    (''claude-3-haiku'', \<lparr>provider = ''Anthropic'', category = ''claude-3'', pricing =
       [with_cache (3 / 10) (3 / 100) (period (utc 2024 3 4 0 0 0) (25 / 100) (125 / 100) anthropic)]\<rparr>),
    (''gemini-1.5-pro'', \<lparr>provider = ''Google'', category = ''gemini-1.5'', pricing =
       [period (utc 2024 2 15 0 0 0) (25 / 10) 10 google]\<rparr>),
    (''gemini-1.5-flash'', \<lparr>provider = ''Google'', category = ''gemini-1.5'', pricing =
       [period (utc 2024 5 14 0 0 0) (15 / 100) (6 / 10) google]\<rparr>),
    (''gemini-1.5-flash-8b'', \<lparr>provider = ''Google'', category = ''gemini-1.5'', pricing =
       [period (utc 2024 10 3 0 0 0) (75 / 1000) (3 / 10) google]\<rparr>),
    (''mistral-large'', \<lparr>provider = ''Mistral'', category = ''mistral-large'', pricing =
       [period (utc 2024 1 1 0 0 0) 2 6 mistral]\<rparr>),
    (''mistral-small'', \<lparr>provider = ''Mistral'', category = ''mistral-small'', pricing =
       [period (utc 2024 1 1 0 0 0) (2 / 10) (6 / 10) mistral]\<rparr>),
    (''command-r-plus'', \<lparr>provider = ''Cohere'', category = ''command-r'', pricing =
       [period (utc 2024 4 4 0 0 0) 3 15 cohere]\<rparr>),
    (''command-r'', \<lparr>provider = ''Cohere'', category = ''command-r'', pricing =
       [period (utc 2024 3 11 0 0 0) (5 / 10) (15 / 10) cohere]\<rparr>)]"

text \<open>
  \<^verbatim>\<open>PRICING_CONFIG\<close> is an object literal, so \<^verbatim>\<open>PRICING_CONFIG[modelId]\<close> also
  finds what the object inherits from \<^verbatim>\<open>Object.prototype\<close>: for these twelve names
  the read yields a function (for \<^verbatim>\<open>__proto__\<close> the prototype object), which is
  truthy and has no \<^verbatim>\<open>pricing\<close> property.
\<close>

definition Object_prototype_keys :: "string list" where
  "Object_prototype_keys =
     [''constructor'', ''__defineGetter__'', ''__defineSetter__'', ''hasOwnProperty'',
      ''__lookupGetter__'', ''__lookupSetter__'', ''isPrototypeOf'',
      ''propertyIsEnumerable'', ''toString'', ''valueOf'', ''__proto__'',
      ''toLocaleString'']"

datatype 'a property = Own 'a | Inherited | Undefined

definition PRICING_CONFIG_get :: "string \<Rightarrow> modelPricing property" where
  "PRICING_CONFIG_get modelId =
     (case map_of PRICING_CONFIG modelId of
        Some modelConfig \<Rightarrow> Own modelConfig
      | None \<Rightarrow> if modelId \<in> set Object_prototype_keys then Inherited else Undefined)"

subsection \<open>Pricing resolver\<close>

text \<open>
  The test of the loop of \<^verbatim>\<open>getPricingForDate\<close>,
  \<^verbatim>\<open>date >= effectiveFrom && (!effectiveTo || date <= effectiveTo)\<close>: both ends of a
  period belong to it, and a period without \<^verbatim>\<open>effectiveTo\<close> is open-ended.
\<close>

definition inPeriod :: "jsdate \<Rightarrow> pricingPeriod \<Rightarrow> bool" where
  "inPeriod date p =
     (date_ge date (Date (effectiveFrom p)) \<and>
      (case effectiveTo p of None \<Rightarrow> True | Some to \<Rightarrow> date_le date (Date to)))"

text \<open>
  The \<^verbatim>\<open>for\<close> loop over the periods, in listed order: the first period that contains
  the date is returned at once.
\<close>

fun scanPeriods :: "jsdate \<Rightarrow> pricingPeriod list \<Rightarrow> pricingPeriod option" where
  "scanPeriods date [] = None"
| "scanPeriods date (p # rest) = (if inPeriod date p then Some p else scanPeriods date rest)"

text \<open>
  \<^verbatim>\<open>modelConfig.pricing[modelConfig.pricing.length - 1] || null\<close>: the last period,
  \<^verbatim>\<open>null\<close> for an empty list.
\<close>

definition lastPeriod :: "pricingPeriod list \<Rightarrow> pricingPeriod option" where
  "lastPeriod ps = (if ps = [] then None else Some (last ps))"

text \<open>
  \<^verbatim>\<open>getPricingForDate\<close>. The date is always passed here; the default, the current
  time, only stands in for an argument that is \<^verbatim>\<open>undefined\<close>.
\<close>

definition getPricingForDate :: "string \<Rightarrow> jsdate \<Rightarrow> error + pricingPeriod option" where
  "getPricingForDate modelId date =
     (case PRICING_CONFIG_get modelId of
        Undefined \<Rightarrow> Inr None
      | Inherited \<Rightarrow> Inl TypeError
      | Own modelConfig \<Rightarrow>
          (case scanPeriods date (pricing modelConfig) of
             Some p \<Rightarrow> Inr (Some p)
           | None \<Rightarrow> Inr (lastPeriod (pricing modelConfig))))"

subsection \<open>Cost of one usage\<close>

record usageArg =
  promptTokens :: "int option"
  completionTokens :: "int option"
  cacheWriteTokens :: "int option"
  cacheReadTokens :: "int option"
  reasoningTokens :: "int option"

record costs =
  cost_prompt :: rat
  cost_completion :: rat
  cost_cacheWrite :: rat
  cost_cacheRead :: rat
  cost_reasoning :: rat
  cost_total :: rat
  cost_modelId :: string
  cost_pricing :: pricingPeriod
  cost_date :: int

text \<open>
  \<^verbatim>\<open>if (n) c = (n / 1000000) * price\<close>, with \<^verbatim>\<open>c\<close> initially 0: the quotient is
  rounded, then the product.
\<close>

definition categoryCost :: "int option \<Rightarrow> rat \<Rightarrow> rat" where
  "categoryCost n price =
     (if truthy_int n then fmul (fdiv (of_int (or0 n)) 1000000) price else 0)"

text \<open>
  \<^verbatim>\<open>if (n && pricing.cache?.write) c = (n / 1000000) * pricing.cache.write\<close>: the optional
  price must be present and not zero.
\<close>

definition optionalCategoryCost :: "int option \<Rightarrow> rat option \<Rightarrow> rat" where
  "optionalCategoryCost n price =
     (if truthy_int n \<and> truthy_rat price
      then fmul (fdiv (of_int (or0 n)) 1000000) (or0_rat price) else 0)"

definition cacheWritePrice :: "pricingPeriod \<Rightarrow> rat option" where
  "cacheWritePrice p = (case cache p of None \<Rightarrow> None | Some c \<Rightarrow> cache_write c)"

definition cacheReadPrice :: "pricingPeriod \<Rightarrow> rat option" where
  "cacheReadPrice p = (case cache p of None \<Rightarrow> None | Some c \<Rightarrow> cache_read c)"

definition reasoningPrice :: "pricingPeriod \<Rightarrow> rat option" where
  "reasoningPrice p = (case reasoning p of None \<Rightarrow> None | Some r \<Rightarrow> tokens r)"

text \<open>
  The result object is built with \<^verbatim>\<open>date.toISOString()\<close>, which raises
  \<^verbatim>\<open>RangeError\<close> on the invalid date; \<open>cost_date\<close> holds the time value that the
  string prints.
\<close>

definition calculateCost :: "string \<Rightarrow> usageArg \<Rightarrow> jsdate \<Rightarrow> error + costs option" where
  "calculateCost modelId tokenUsage date =
     (case getPricingForDate modelId date of
        Inl e \<Rightarrow> Inl e
      | Inr None \<Rightarrow> Inr None
      | Inr (Some pr) \<Rightarrow>
          (let cp = categoryCost (promptTokens tokenUsage) (prompt pr);
               cc = categoryCost (completionTokens tokenUsage) (completion pr);
               cw = optionalCategoryCost (cacheWriteTokens tokenUsage) (cacheWritePrice pr);
               cr = optionalCategoryCost (cacheReadTokens tokenUsage) (cacheReadPrice pr);
               cz = optionalCategoryCost (reasoningTokens tokenUsage) (reasoningPrice pr)
           in case date of
                InvalidDate \<Rightarrow> Inl RangeError
              | Date t \<Rightarrow>
                  Inr (Some \<lparr>cost_prompt = cp, cost_completion = cc, cost_cacheWrite = cw,
                             cost_cacheRead = cr, cost_reasoning = cz,
                             cost_total = fadd (fadd (fadd (fadd cp cc) cw) cr) cz,
                             cost_modelId = modelId, cost_pricing = pr, cost_date = t\<rparr>)))"

text \<open>
  \<^verbatim>\<open>getModelInfo\<close>. For an inherited name \<^verbatim>\<open>config.pricing\<close> is
  \<^verbatim>\<open>undefined\<close> and \<^verbatim>\<open>config.pricing.some\<close> raises \<^verbatim>\<open>TypeError\<close>.
\<close>

record modelInfo =
  info_modelId :: string
  info_provider :: string
  info_category :: string
  supportsCaching :: bool
  supportsReasoning :: bool

definition getModelInfo :: "string \<Rightarrow> error + modelInfo option" where
  "getModelInfo modelId =
     (case PRICING_CONFIG_get modelId of
        Undefined \<Rightarrow> Inr None
      | Inherited \<Rightarrow> Inl TypeError
      | Own config \<Rightarrow>
          Inr (Some \<lparr>info_modelId = modelId, info_provider = provider config,
                     info_category = category config,
                     supportsCaching = list_ex (\<lambda>p. cache p \<noteq> None) (pricing config),
                     supportsReasoning = list_ex (\<lambda>p. reasoning p \<noteq> None) (pricing config)\<rparr>))"

subsection \<open>Aggregation over the transactions of a conversation\<close>

text \<open>
  A stored transaction, as \<^verbatim>\<open>calculateConversationCost\<close> reads it. \<^verbatim>\<open>_id\<close> is
  only logged and is left out. \<^verbatim>\<open>tokenValue\<close> is the value of the stored double.
\<close>

record transaction =
  model :: "string option"
  tokenType :: "string option"
  rawAmount :: "int option"
  inputTokens :: "int option"
  writeTokens :: "int option"
  readTokens :: "int option"
  tokenValue :: "rat option"
  createdAt :: "int option"

record CostBreakdown =
  cb_prompt :: rat
  cb_completion :: rat
  cb_cacheWrite :: rat
  cb_cacheRead :: rat
  cb_reasoning :: rat

record TokenUsage =
  tu_promptTokens :: int
  tu_completionTokens :: int
  tu_cacheWriteTokens :: int
  tu_cacheReadTokens :: int
  tu_reasoningTokens :: int

record modelData =
  md_modelId :: string
  md_cost :: rat
  md_tokenUsage :: TokenUsage
  transactionCount :: nat

text \<open>
  The local variables of the loop. \<^verbatim>\<open>modelBreakdown\<close> is a \<^verbatim>\<open>Map\<close>: its
  entries stay in the order of first insertion.
\<close>

record acc =
  acc_costBreakdown :: CostBreakdown
  acc_tokenUsage :: TokenUsage
  acc_modelBreakdown :: "(string \<times> modelData) list"
  acc_lastUpdated :: jsdate

definition zeroTokens :: TokenUsage where
  "zeroTokens = \<lparr>tu_promptTokens = 0, tu_completionTokens = 0, tu_cacheWriteTokens = 0,
                  tu_cacheReadTokens = 0, tu_reasoningTokens = 0\<rparr>"

definition zeroCosts :: CostBreakdown where
  "zeroCosts = \<lparr>cb_prompt = 0, cb_completion = 0, cb_cacheWrite = 0, cb_cacheRead = 0,
                 cb_reasoning = 0\<rparr>"

definition initial :: acc where
  "initial = \<lparr>acc_costBreakdown = zeroCosts, acc_tokenUsage = zeroTokens,
               acc_modelBreakdown = [], acc_lastUpdated = Date 0\<rparr>"

definition newModelData :: "string \<Rightarrow> modelData" where
  "newModelData modelId =
     \<lparr>md_modelId = modelId, md_cost = 0, md_tokenUsage = zeroTokens, transactionCount = 0\<rparr>"

definition noTokens :: usageArg where
  "noTokens = \<lparr>promptTokens = None, completionTokens = None, cacheWriteTokens = None,
                cacheReadTokens = None, reasoningTokens = None\<rparr>"

text \<open>\<^verbatim>\<open>Math.abs(x || 0)\<close>.\<close>

definition absOr0 :: "int option \<Rightarrow> int" where
  "absOr0 x = \<bar>or0 x\<bar>"

text \<open>The token counts of one transaction (\<^verbatim>\<open>currentTokenUsage\<close>).\<close>

definition currentTokenUsage :: "transaction \<Rightarrow> usageArg" where
  "currentTokenUsage t =
     (if tokenType t = Some ''prompt'' then
        (if inputTokens t \<noteq> None
         then noTokens\<lparr>promptTokens := Some (absOr0 (inputTokens t)),
                       cacheWriteTokens := Some (absOr0 (writeTokens t)),
                       cacheReadTokens := Some (absOr0 (readTokens t))\<rparr>
         else noTokens\<lparr>promptTokens := Some (absOr0 (rawAmount t))\<rparr>)
      else if tokenType t = Some ''completion'' then
        noTokens\<lparr>completionTokens := Some (absOr0 (rawAmount t))\<rparr>
      else if tokenType t = Some ''reasoning'' then
        noTokens\<lparr>reasoningTokens := Some (absOr0 (rawAmount t))\<rparr>
      else noTokens)"

text \<open>\<^verbatim>\<open>total.x += current.x || 0\<close> for the five counters.\<close>

definition addTokens :: "TokenUsage \<Rightarrow> usageArg \<Rightarrow> TokenUsage" where
  "addTokens tot u =
     \<lparr>tu_promptTokens = tu_promptTokens tot + or0 (promptTokens u),
      tu_completionTokens = tu_completionTokens tot + or0 (completionTokens u),
      tu_cacheWriteTokens = tu_cacheWriteTokens tot + or0 (cacheWriteTokens u),
      tu_cacheReadTokens = tu_cacheReadTokens tot + or0 (cacheReadTokens u),
      tu_reasoningTokens = tu_reasoningTokens tot + or0 (reasoningTokens u)\<rparr>"

definition addCosts :: "CostBreakdown \<Rightarrow> costs \<Rightarrow> CostBreakdown" where
  "addCosts b c =
     \<lparr>cb_prompt = fadd (cb_prompt b) (cost_prompt c),
      cb_completion = fadd (cb_completion b) (cost_completion c),
      cb_cacheWrite = fadd (cb_cacheWrite b) (cost_cacheWrite c),
      cb_cacheRead = fadd (cb_cacheRead b) (cost_cacheRead c),
      cb_reasoning = fadd (cb_reasoning b) (cost_reasoning c)\<rparr>"

text \<open>
  \<^verbatim>\<open>Math.abs(transaction.tokenValue || 0) / 1000000\<close>, the cost taken from the
  stored credits when no price is found.
\<close>

definition fallbackCost :: "transaction \<Rightarrow> rat" where
  "fallbackCost t = fdiv \<bar>or0_rat (tokenValue t)\<bar> 1000000"

definition addFallback :: "CostBreakdown \<Rightarrow> transaction \<Rightarrow> CostBreakdown" where
  "addFallback b t =
     (if tokenType t = Some ''completion''
      then b\<lparr>cb_completion := fadd (cb_completion b) (fallbackCost t)\<rparr>
      else b\<lparr>cb_prompt := fadd (cb_prompt b) (fallbackCost t)\<rparr>)"

text \<open>
  \<^verbatim>\<open>modelBreakdown.get(modelId)\<close> after the entry was created when missing.
\<close>

definition modelDataOf :: "(string \<times> modelData) list \<Rightarrow> string \<Rightarrow> modelData" where
  "modelDataOf mb modelId =
     (case map_of mb modelId of None \<Rightarrow> newModelData modelId | Some md \<Rightarrow> md)"

text \<open>
  The first statement of the loop body: \<^verbatim>\<open>lastUpdated\<close> moves to the date of the
  transaction when that date is later.
\<close>

definition trackLastUpdated :: "acc \<Rightarrow> transaction \<Rightarrow> acc" where
  "trackLastUpdated st t =
     (if date_gt (new_Date (createdAt t)) (acc_lastUpdated st)
      then st\<lparr>acc_lastUpdated := new_Date (createdAt t)\<rparr> else st)"

text \<open>
  The body of the loop. A transaction whose model is \<^verbatim>\<open>undefined\<close> or the empty
  string only moves \<^verbatim>\<open>lastUpdated\<close>. The entry of the model is updated in place;
  \<open>AList.update\<close> keeps the position of a key that is present and appends a new one,
  as \<^verbatim>\<open>Map.set\<close> does.
\<close>

definition processTransaction :: "acc \<Rightarrow> transaction \<Rightarrow> error + acc" where
  "processTransaction st t =
     (let transactionDate = new_Date (createdAt t);
          st1 = trackLastUpdated st t
      in case model t of
           None \<Rightarrow> Inr st1
         | Some modelId \<Rightarrow>
             if modelId = [] then Inr st1
             else
               (let md = modelDataOf (acc_modelBreakdown st1) modelId;
                    md1 = md\<lparr>transactionCount := transactionCount md + 1\<rparr>;
                    u = currentTokenUsage t
                in case calculateCost modelId u transactionDate of
                     Inl e \<Rightarrow> Inl e
                   | Inr (Some c) \<Rightarrow>
                       Inr (st1\<lparr>acc_costBreakdown := addCosts (acc_costBreakdown st1) c,
                                 acc_modelBreakdown :=
                                   AList.update modelId
                                     (md1\<lparr>md_cost := fadd (md_cost md1) (cost_total c),
                                           md_tokenUsage := addTokens (md_tokenUsage md1) u\<rparr>)
                                     (acc_modelBreakdown st1),
                                 acc_tokenUsage := addTokens (acc_tokenUsage st1) u\<rparr>)
                   | Inr None \<Rightarrow>
                       Inr (st1\<lparr>acc_costBreakdown := addFallback (acc_costBreakdown st1) t,
                                 acc_modelBreakdown :=
                                   AList.update modelId
                                     (md1\<lparr>md_cost := fadd (md_cost md1) (fallbackCost t)\<rparr>)
                                     (acc_modelBreakdown st1),
                                 acc_tokenUsage := addTokens (acc_tokenUsage st1) u\<rparr>)))"

fun processTransactions :: "acc \<Rightarrow> transaction list \<Rightarrow> error + acc" where
  "processTransactions st [] = Inr st"
| "processTransactions st (t # ts) =
     (case processTransaction st t of
        Inl e \<Rightarrow> Inl e
      | Inr st' \<Rightarrow> processTransactions st' ts)"

subsection \<open>The summary\<close>

text \<open>
  An entry of the returned \<^verbatim>\<open>modelBreakdown\<close> array: the fields of the model's
  data, then \<^verbatim>\<open>provider\<close> and \<^verbatim>\<open>category\<close>.
\<close>

record modelEntry = modelData +
  entry_provider :: string
  entry_category :: string

record ConversationCostSummary =
  conversationId :: string
  totalCost :: rat
  costBreakdown :: CostBreakdown
  tokenUsage :: TokenUsage
  modelBreakdown :: "modelEntry list"
  lastUpdated :: jsdate

text \<open>\<^verbatim>\<open>s || 'Unknown'\<close> for a string: the empty string is falsy.\<close>

definition orUnknown :: "string \<Rightarrow> string" where
  "orUnknown s = (if s = [] then ''Unknown'' else s)"

definition withModelInfo :: "modelData \<Rightarrow> error + modelEntry" where
  "withModelInfo m =
     (case getModelInfo (md_modelId m) of
        Inl e \<Rightarrow> Inl e
      | Inr None \<Rightarrow>
          Inr (modelData.extend m
                 \<lparr>entry_provider = ''Unknown'', entry_category = ''Unknown''\<rparr>)
      | Inr (Some i) \<Rightarrow>
          Inr (modelData.extend m
                 \<lparr>entry_provider = orUnknown (info_provider i),
                  entry_category = orUnknown (info_category i)\<rparr>))"

text \<open>\<^verbatim>\<open>Array.prototype.map\<close> with a callback that may raise.\<close>

fun mapModels :: "modelData list \<Rightarrow> error + modelEntry list" where
  "mapModels [] = Inr []"
| "mapModels (m # ms) =
     (case withModelInfo m of
        Inl e \<Rightarrow> Inl e
      | Inr x \<Rightarrow> (case mapModels ms of Inl e \<Rightarrow> Inl e | Inr xs \<Rightarrow> Inr (x # xs)))"

text \<open>
  \<^verbatim>\<open>Math.round(x * 100000) / 100000\<close>: the product and the quotient are doubles,
  \<^verbatim>\<open>Math.round\<close> is exact.
\<close>

definition round5 :: "rat \<Rightarrow> rat" where
  "round5 x = fdiv (of_int (Math_round (fmul x 100000))) 100000"

text \<open>The sum of the five categories, added from left to right.\<close>

definition sumCosts :: "CostBreakdown \<Rightarrow> rat" where
  "sumCosts b =
     fadd (fadd (fadd (fadd (cb_prompt b) (cb_completion b)) (cb_cacheWrite b)) (cb_cacheRead b))
       (cb_reasoning b)"

definition roundCosts :: "CostBreakdown \<Rightarrow> CostBreakdown" where
  "roundCosts b =
     \<lparr>cb_prompt = round5 (cb_prompt b), cb_completion = round5 (cb_completion b),
      cb_cacheWrite = round5 (cb_cacheWrite b), cb_cacheRead = round5 (cb_cacheRead b),
      cb_reasoning = round5 (cb_reasoning b)\<rparr>"

text \<open>
  What follows the loop: the total, the array of models sorted by cost, the highest
  first (the sort is stable), and the rounded result.
\<close>

definition summarize :: "string \<Rightarrow> acc \<Rightarrow> error + ConversationCostSummary" where
  "summarize cid st =
     (case mapModels (map snd (acc_modelBreakdown st)) of
        Inl e \<Rightarrow> Inl e
      | Inr entries \<Rightarrow>
          Inr \<lparr>conversationId = cid,
               totalCost = round5 (sumCosts (acc_costBreakdown st)),
               costBreakdown = roundCosts (acc_costBreakdown st),
               tokenUsage = acc_tokenUsage st,
               modelBreakdown = sort_key (\<lambda>m. - md_cost m) entries,
               lastUpdated = acc_lastUpdated st\<rparr>)"

text \<open>
  The part of \<^verbatim>\<open>calculateConversationCost\<close> after the query: \<^verbatim>\<open>null\<close> for an
  absent or empty list of transactions.
\<close>

definition costOfTransactions ::
    "string \<Rightarrow> transaction list option \<Rightarrow> error + ConversationCostSummary option" where
  "costOfTransactions cid transactions =
     (case transactions of
        None \<Rightarrow> Inr None
      | Some ts \<Rightarrow>
          if ts = [] then Inr None
          else
            (case processTransactions initial ts of
               Inl e \<Rightarrow> Inl e
             | Inr st \<Rightarrow>
                 (case summarize cid st of Inl e \<Rightarrow> Inl e | Inr s \<Rightarrow> Inr (Some s))))"

text \<open>
  The transaction collection is a parameter: \<open>db query\<close> is what
  \<^verbatim>\<open>Transaction.find(query).sort({ createdAt: 1 }).lean()\<close> resolves to, or the error
  it rejects with. The \<^verbatim>\<open>catch\<close> of \<^verbatim>\<open>calculateConversationCost\<close> logs and
  raises the same error again.
\<close>

record query =
  q_conversationId :: string
  q_user :: "string option"

type_synonym collection = "query \<Rightarrow> error + transaction list option"

definition buildQuery :: "string \<Rightarrow> string option \<Rightarrow> query" where
  "buildQuery cid userId =
     \<lparr>q_conversationId = cid,
      q_user = (case userId of None \<Rightarrow> None | Some u \<Rightarrow> if u = [] then None else Some u)\<rparr>"

definition calculateConversationCost ::
    "collection \<Rightarrow> string \<Rightarrow> string option \<Rightarrow> error + ConversationCostSummary option" where
  "calculateConversationCost db cid userId =
     (case db (buildQuery cid userId) of
        Inl e \<Rightarrow> Inl e
      | Inr transactions \<Rightarrow> costOfTransactions cid transactions)"

subsection \<open>Display\<close>

text \<open>Decimal digits: the last \<open>k\<close> digits of a number, and the whole numeral.\<close>

definition digit :: "nat \<Rightarrow> char" where
  "digit d = ''0123456789'' ! d"

fun lastDigits :: "nat \<Rightarrow> nat \<Rightarrow> string" where
  "lastDigits 0 n = []"
| "lastDigits (Suc k) n = lastDigits k (n div 10) @ [digit (n mod 10)]"

fun decimal :: "nat \<Rightarrow> string" where
  "decimal n = (if n < 10 then [digit n] else decimal (n div 10) @ [digit (n mod 10)])"

declare decimal.simps [simp del]

text \<open>
  \<^verbatim>\<open>Number.prototype.toFixed\<close> in fixed notation: the integer \<open>n\<close> nearest to
  \<open>x \<sdot> 10\<^sup>f\<close>, the larger one at a tie, printed with a point before its last \<open>f\<close>
  digits; a negative number is printed as a minus sign and its absolute value. (From
  \<open>10\<^sup>2\<^sup>1\<close> on JavaScript prints the exponent notation of the number instead; amounts
  of that size are outside the model.)
\<close>

definition toFixedNat :: "nat \<Rightarrow> rat \<Rightarrow> string" where
  "toFixedNat f x =
     (let n = nat \<lfloor>x * 10 ^ f + 1 / 2\<rfloor>
      in decimal (n div 10 ^ f) @ (if f = 0 then [] else ''.'' @ lastDigits f (n mod 10 ^ f)))"

definition toFixed :: "nat \<Rightarrow> rat \<Rightarrow> string" where
  "toFixed f x = (if x < 0 then ''-'' @ toFixedNat f (- x) else toFixedNat f x)"

text \<open>
  \<^verbatim>\<open>formatCost\<close>, written the same way in \<^verbatim>\<open>getConversationCostDisplay\<close> and in
  the client component.
\<close>

definition formatCost :: "rat \<Rightarrow> string" where
  "formatCost c =
     (if c < 1 / 1000 then ''<$0.001''
      else if c < 1 / 100 then ''$'' @ toFixed 4 c
      else if c < 1 then ''$'' @ toFixed 3 c
      else ''$'' @ toFixed 2 c)"

record costDisplay =
  d_conversationId :: string
  d_totalCost :: string
  d_totalCostRaw :: rat
  d_primaryModel :: string
  d_totalTokens :: int
  d_lastUpdated :: jsdate

definition primaryModelOf :: "modelEntry list \<Rightarrow> string" where
  "primaryModelOf ms = (case ms of [] \<Rightarrow> ''Unknown'' | m # _ \<Rightarrow> orUnknown (md_modelId m))"

text \<open>
  \<^verbatim>\<open>getConversationCostDisplay\<close> catches every error of the calculation and returns
  \<^verbatim>\<open>null\<close>.
\<close>

definition getConversationCostDisplay ::
    "collection \<Rightarrow> string \<Rightarrow> string option \<Rightarrow> error + costDisplay option" where
  "getConversationCostDisplay db cid userId =
     (case calculateConversationCost db cid userId of
        Inl e \<Rightarrow> Inr None
      | Inr None \<Rightarrow> Inr None
      | Inr (Some s) \<Rightarrow>
          Inr (Some \<lparr>d_conversationId = cid,
                     d_totalCost = formatCost (totalCost s),
                     d_totalCostRaw = totalCost s,
                     d_primaryModel = primaryModelOf (modelBreakdown s),
                     d_totalTokens = tu_promptTokens (tokenUsage s) + tu_completionTokens (tokenUsage s),
                     d_lastUpdated = lastUpdated s\<rparr>))"

subsection \<open>Batches\<close>

text \<open>
  \<^verbatim>\<open>results\<close> is an object literal that starts empty: it has its own properties,
  each a display or \<^verbatim>\<open>null\<close>, and a prototype, at first \<^verbatim>\<open>Object.prototype\<close>.
  The assignment \<^verbatim>\<open>results[conversationId] = cost\<close> creates or overwrites an own
  property, except for the key \<^verbatim>\<open>__proto__\<close> while the object still inherits
  from \<^verbatim>\<open>Object.prototype\<close>: there it calls the inherited setter, which makes
  \<^verbatim>\<open>cost\<close> (a display object or \<^verbatim>\<open>null\<close>) the prototype of \<^verbatim>\<open>results\<close> and
  creates no property. A display object inherits from \<^verbatim>\<open>Object.prototype\<close> itself;
  once the prototype is \<^verbatim>\<open>null\<close> the setter is out of reach and \<^verbatim>\<open>__proto__\<close> is
  a key like any other.
\<close>

datatype prototype = ObjectPrototype | DisplayPrototype costDisplay | NullPrototype

record results =
  properties :: "string \<rightharpoonup> costDisplay option"
  prototypeOf :: prototype

definition emptyObject :: results where
  "emptyObject = \<lparr>properties = Map.empty, prototypeOf = ObjectPrototype\<rparr>"

definition assign :: "results \<Rightarrow> string \<times> costDisplay option \<Rightarrow> results" where
  "assign r kv =
     (if fst kv = ''__proto__'' \<and> prototypeOf r \<noteq> NullPrototype
      then r\<lparr>prototypeOf := (case snd kv of None \<Rightarrow> NullPrototype | Some d \<Rightarrow> DisplayPrototype d)\<rparr>
      else r\<lparr>properties := (properties r)(fst kv \<mapsto> snd kv)\<rparr>)"

text \<open>
  One element of a batch: the \<^verbatim>\<open>async\<close> callback, whose \<^verbatim>\<open>catch\<close> turns an
  error into a \<^verbatim>\<open>null\<close> cost. The callbacks of a batch share no state, so the batch
  is their results in the order of the identifiers.
\<close>

definition costOfConversation ::
    "collection \<Rightarrow> string option \<Rightarrow> string \<Rightarrow> string \<times> costDisplay option" where
  "costOfConversation db userId cid =
     (case getConversationCostDisplay db cid userId of
        Inl e \<Rightarrow> (cid, None)
      | Inr cost \<Rightarrow> (cid, cost))"

definition batchSize :: nat where
  "batchSize = 10"

function batches ::
    "collection \<Rightarrow> string option \<Rightarrow> string list \<Rightarrow> nat \<Rightarrow> results \<Rightarrow> results" where
  "batches db userId conversationIds i r =
     (if i < length conversationIds then
        (let batch = take batchSize (drop i conversationIds);
             batchResults = map (costOfConversation db userId) batch
         in batches db userId conversationIds (i + batchSize) (foldl assign r batchResults))
      else r)"
  by pat_completeness auto
termination
  by (relation "measure (\<lambda>(db, userId, conversationIds, i, r). length conversationIds - i)")
     (auto simp: batchSize_def)

declare batches.simps [simp del]

text \<open>
  Nothing in the loop raises for an array of identifiers, so the outer \<^verbatim>\<open>catch\<close> is
  never entered.
\<close>

definition getMultipleConversationCosts ::
    "collection \<Rightarrow> string list \<Rightarrow> string option \<Rightarrow> error + results" where
  "getMultipleConversationCosts db conversationIds userId =
     Inr (batches db userId conversationIds 0 emptyObject)"

subsection \<open>Notions used to state the properties\<close>

text \<open>
  The shape of a formatted amount: a dollar sign, at least one digit, a point and
  exactly \<open>k\<close> digits.
\<close>

definition isDigit :: "char \<Rightarrow> bool" where
  "isDigit c = (c \<in> set ''0123456789'')"

definition dollarDecimals :: "nat \<Rightarrow> string \<Rightarrow> bool" where
  "dollarDecimals k s =
     (case s of
        [] \<Rightarrow> False
      | c # r \<Rightarrow>
          c = CHR ''$'' \<and> k + 1 < length r \<and>
          list_all isDigit (take (length r - (k + 1)) r) \<and>
          r ! (length r - (k + 1)) = CHR ''.'' \<and>
          list_all isDigit (drop (length r - k) r))"

text \<open>
  What one transaction adds to the five cost categories: nothing when it has no model,
  the five costs that \<^verbatim>\<open>calculateCost\<close> returns, or, when that returns
  \<^verbatim>\<open>null\<close>, the stored credits over 1,000,000, under completion when the token type
  is \<^verbatim>\<open>completion\<close> and under prompt otherwise.
\<close>

definition contribution :: "transaction \<Rightarrow> CostBreakdown" where
  "contribution t =
     (case model t of
        None \<Rightarrow> zeroCosts
      | Some modelId \<Rightarrow>
          if modelId = [] then zeroCosts
          else
            (case calculateCost modelId (currentTokenUsage t) (new_Date (createdAt t)) of
               Inl e \<Rightarrow> zeroCosts
             | Inr (Some c) \<Rightarrow>
                 \<lparr>cb_prompt = cost_prompt c, cb_completion = cost_completion c,
                  cb_cacheWrite = cost_cacheWrite c, cb_cacheRead = cost_cacheRead c,
                  cb_reasoning = cost_reasoning c\<rparr>
             | Inr None \<Rightarrow>
                 if tokenType t = Some ''completion''
                 then zeroCosts\<lparr>cb_completion := rd (\<bar>or0_rat (tokenValue t)\<bar> / 1000000)\<rparr>
                 else zeroCosts\<lparr>cb_prompt := rd (\<bar>or0_rat (tokenValue t)\<bar> / 1000000)\<rparr>))"

text \<open>
  The accumulated sum of a category over a list of transactions: the contributions are
  added to 0 in the order of the list, and each sum is rounded to the nearest double.
\<close>

definition accumulated :: "(CostBreakdown \<Rightarrow> rat) \<Rightarrow> transaction list \<Rightarrow> rat" where
  "accumulated part ts = foldl (\<lambda>a t. rd (a + part (contribution t))) 0 ts"

text \<open>The five sums of a cost breakdown are doubles.\<close>

definition doubles :: "CostBreakdown \<Rightarrow> bool" where
  "doubles b \<longleftrightarrow>
     rd (cb_prompt b) = cb_prompt b \<and> rd (cb_completion b) = cb_completion b \<and>
     rd (cb_cacheWrite b) = cb_cacheWrite b \<and> rd (cb_cacheRead b) = cb_cacheRead b \<and>
     rd (cb_reasoning b) = cb_reasoning b"

text \<open>
  Whether the loop body raises on a transaction; this does not depend on the state the
  body starts from.
\<close>

definition raisesOn :: "transaction \<Rightarrow> bool" where
  "raisesOn t = (case processTransaction initial t of Inl e \<Rightarrow> True | Inr st \<Rightarrow> False)"

text \<open>
  The entries of \<^verbatim>\<open>modelBreakdown\<close> are filed under their own model, and no model
  in it is an inherited name.
\<close>

definition keyed :: "(string \<times> modelData) list \<Rightarrow> bool" where
  "keyed mb = list_all (\<lambda>(k, md). md_modelId md = k \<and> PRICING_CONFIG_get k \<noteq> Inherited) mb"

text \<open>The timestamps that the records of a list carry.\<close>

definition timestamps :: "transaction list \<Rightarrow> int list" where
  "timestamps ts = concat (map (\<lambda>t. case createdAt t of None \<Rightarrow> [] | Some d \<Rightarrow> [d]) ts)"

text \<open>The own property of a key in the result of the batch operation.\<close>

definition entryOf :: "string \<Rightarrow> error + results \<Rightarrow> error + costDisplay option option" where
  "entryOf k res = (case res of Inl e \<Rightarrow> Inl e | Inr r \<Rightarrow> Inr (properties r k))"

text \<open>Projections of the result of the calculation.\<close>

definition totalCostOf :: "error + ConversationCostSummary option \<Rightarrow> error + rat option" where
  "totalCostOf res = (case res of Inl e \<Rightarrow> Inl e | Inr s \<Rightarrow> Inr (map_option totalCost s))"

definition lastUpdatedOf :: "error + ConversationCostSummary option \<Rightarrow> error + jsdate option" where
  "lastUpdatedOf res = (case res of Inl e \<Rightarrow> Inl e | Inr s \<Rightarrow> Inr (map_option lastUpdated s))"


subsection \<open>Usage records of the message-based aggregation\<close>

text \<open>
  The message-based aggregation \<^verbatim>\<open>calculateConversationCostFromMessages\<close> of
  \<^verbatim>\<open>ConversationCostDynamic\<close> is exercised by the test file, but the module itself
  is not among the sources. What is needed of it is taken from sections 3 and 4.2 of the
  specification.
\<close>

text \<open>
  Modelled from the spec: the \<^verbatim>\<open>usage\<close> object of a usage record of the missing
  \<^verbatim>\<open>calculateConversationCostFromMessages\<close>, with \<^verbatim>\<open>prompt_tokens\<close>,
  \<^verbatim>\<open>completion_tokens\<close> and optional \<^verbatim>\<open>reasoning_tokens\<close>.
\<close>

record usageObject =
  prompt_tokens :: "int option"
  completion_tokens :: "int option"
  reasoning_tokens :: "int option"

text \<open>
  Modelled from the spec: the \<^verbatim>\<open>tokens\<close> object of a usage record of the missing
  \<^verbatim>\<open>calculateConversationCostFromMessages\<close>, with \<^verbatim>\<open>prompt\<close> and
  \<^verbatim>\<open>completion\<close>, or \<^verbatim>\<open>input\<close> and \<^verbatim>\<open>output\<close>.
\<close>

record tokensObject =
  tokens_prompt :: "int option"
  tokens_completion :: "int option"
  tokens_input :: "int option"
  tokens_output :: "int option"

text \<open>
  Modelled from the spec: the optional \<^verbatim>\<open>cacheTokens\<close> of a usage record of the
  missing \<^verbatim>\<open>calculateConversationCostFromMessages\<close>.
\<close>

record cacheTokensObject =
  cacheTokens_write :: "int option"
  cacheTokens_read :: "int option"

text \<open>
  Modelled from the spec: the usage record that the missing
  \<^verbatim>\<open>calculateConversationCostFromMessages\<close> reads (section 3): a model that may be
  absent, a timestamp, and a token payload as a flat \<^verbatim>\<open>tokenCount\<close>, a
  \<^verbatim>\<open>usage\<close> object or a \<^verbatim>\<open>tokens\<close> object.
\<close>

record usageRecord =
  ur_model :: "string option"
  ur_createdAt :: "int option"
  ur_tokenCount :: "int option"
  ur_usage :: "usageObject option"
  ur_tokens :: "tokensObject option"
  ur_cacheTokens :: "cacheTokensObject option"

text \<open>
  Modelled from the spec: the choice between the two spellings of a field of the
  \<^verbatim>\<open>tokens\<close> object in the missing \<^verbatim>\<open>calculateConversationCostFromMessages\<close>,
  with the default 0.
\<close>

definition firstOr0 :: "int option \<Rightarrow> int option \<Rightarrow> int" where
  "firstOr0 a b = (case a of Some n \<Rightarrow> n | None \<Rightarrow> or0 b)"

text \<open>
  Modelled from the spec: step 1 of the aggregation in section 4.2, the normalisation of
  the payload of a record of the missing \<^verbatim>\<open>calculateConversationCostFromMessages\<close>.
  Every count defaults to 0; the \<^verbatim>\<open>usage\<close> object has precedence over the
  \<^verbatim>\<open>tokens\<close> object, which has precedence over the flat count; the flat count goes to
  completion if the record has a model and to prompt otherwise; the cache counts always
  come from \<^verbatim>\<open>cacheTokens\<close>.
\<close>

definition normalizeTokens :: "usageRecord \<Rightarrow> TokenUsage" where
  "normalizeTokens r =
     (let w = (case ur_cacheTokens r of None \<Rightarrow> 0 | Some c \<Rightarrow> or0 (cacheTokens_write c));
          d = (case ur_cacheTokens r of None \<Rightarrow> 0 | Some c \<Rightarrow> or0 (cacheTokens_read c));
          z = zeroTokens\<lparr>tu_cacheWriteTokens := w, tu_cacheReadTokens := d\<rparr>
      in case ur_usage r of
           Some u \<Rightarrow> z\<lparr>tu_promptTokens := or0 (prompt_tokens u),
                        tu_completionTokens := or0 (completion_tokens u),
                        tu_reasoningTokens := or0 (reasoning_tokens u)\<rparr>
         | None \<Rightarrow>
             (case ur_tokens r of
                Some k \<Rightarrow> z\<lparr>tu_promptTokens := firstOr0 (tokens_prompt k) (tokens_input k),
                             tu_completionTokens := firstOr0 (tokens_completion k) (tokens_output k)\<rparr>
              | None \<Rightarrow>
                  (case ur_tokenCount r of
                     None \<Rightarrow> z
                   | Some n \<Rightarrow>
                       if ur_model r = None then z\<lparr>tu_promptTokens := n\<rparr>
                       else z\<lparr>tu_completionTokens := n\<rparr>)))"

text \<open>
  Modelled from the spec: step 5 of the aggregation in section 4.2, as far as the token
  totals of the missing \<^verbatim>\<open>calculateConversationCostFromMessages\<close> go: the normalised
  counts of a record are added to the running totals, category by category.
\<close>

definition accumulateTokens :: "TokenUsage \<Rightarrow> usageRecord \<Rightarrow> TokenUsage" where
  "accumulateTokens tot r =
     (let n = normalizeTokens r
      in \<lparr>tu_promptTokens = tu_promptTokens tot + tu_promptTokens n,
          tu_completionTokens = tu_completionTokens tot + tu_completionTokens n,
          tu_cacheWriteTokens = tu_cacheWriteTokens tot + tu_cacheWriteTokens n,
          tu_cacheReadTokens = tu_cacheReadTokens tot + tu_cacheReadTokens n,
          tu_reasoningTokens = tu_reasoningTokens tot + tu_reasoningTokens n\<rparr>)"

subsection \<open>Concrete inputs\<close>

definition tx :: "string option \<Rightarrow> string \<Rightarrow> int \<Rightarrow> int option \<Rightarrow> transaction" where
  "tx m ty n d =
     \<lparr>model = m, tokenType = Some ty, rawAmount = Some n, inputTokens = None,
      writeTokens = None, readTokens = None, tokenValue = None, createdAt = d\<rparr>"



text \<open>A completion of 1000 tokens by a priced model, without \<^verbatim>\<open>createdAt\<close>.\<close>

definition tx_no_timestamp :: transaction where
  "tx_no_timestamp = tx (Some ''gpt-4'') ''completion'' (- 1000) None"

text \<open>A transaction without \<^verbatim>\<open>createdAt\<close> of a model that has no price.\<close>

definition tx_undated :: transaction where
  "tx_undated = tx (Some ''unknown-model-xyz'') ''completion'' (- 1000) None"

text \<open>Collections that hold one conversation, or none.\<close>

definition db_no_timestamp :: collection where
  "db_no_timestamp q = Inr (Some [tx_no_timestamp])"

definition db_empty :: collection where
  "db_empty q = Inr (Some [])"

text \<open>
  Three completions of \<^verbatim>\<open>gpt-4\<close> on 2024-06-01, at 10:00, 15:00 and 12:00.
\<close>

definition txs_three :: "transaction list" where
  "txs_three =
     [tx (Some ''gpt-4'') ''completion'' (- 500) (Some (utc 2024 6 1 10 0 0)),
      tx (Some ''gpt-4'') ''completion'' (- 500) (Some (utc 2024 6 1 15 0 0)),
      tx (Some ''gpt-4'') ''completion'' (- 500) (Some (utc 2024 6 1 12 0 0))]"

definition db_three :: collection where
  "db_three q = Inr (Some txs_three)"

text \<open>A prompt of 500 tokens without model and without \<^verbatim>\<open>createdAt\<close>.\<close>

definition tx_user :: transaction where
  "tx_user = tx None ''prompt'' (- 500) None"

definition db_user :: collection where
  "db_user q = Inr (Some [tx_user])"

definition db_undated :: collection where
  "db_undated q = Inr (Some [tx_undated])"

text \<open>
  A conversation of one prompt of \<open>n\<close> tokens of \<^verbatim>\<open>gpt-4o\<close> on 2024-06-01, and
  the collection that holds it.
\<close>

definition gpt4o_prompt :: "int \<Rightarrow> transaction list" where
  "gpt4o_prompt n = [tx (Some ''gpt-4o'') ''prompt'' (- n) (Some (utc 2024 6 1 0 0 0))]"

definition db_gpt4o_prompt :: "int \<Rightarrow> collection" where
  "db_gpt4o_prompt n q = Inr (Some (gpt4o_prompt n))"

text \<open>
  A conversation that meets all five categories: 7 prompt tokens of \<^verbatim>\<open>gpt-4o\<close>,
  completions of 12 and of 25 tokens of \<^verbatim>\<open>gpt-3.5-turbo\<close>, a structured prompt of
  \<^verbatim>\<open>claude-3-5-sonnet\<close> with no input tokens, 510 cache-write and 301 cache-read
  tokens, and 2000 reasoning tokens of \<^verbatim>\<open>o1\<close>.
\<close>

definition txs_mixed :: "transaction list" where
  "txs_mixed =
     [tx (Some ''gpt-4o'') ''prompt'' (- 7) (Some (utc 2024 6 1 0 0 0)),
      tx (Some ''gpt-3.5-turbo'') ''completion'' (- 12) (Some (utc 2024 6 1 0 0 0)),
      tx (Some ''gpt-3.5-turbo'') ''completion'' (- 25) (Some (utc 2024 6 2 0 0 0)),
      \<lparr>model = Some ''claude-3-5-sonnet'', tokenType = Some ''prompt'',
       rawAmount = Some (- 811), inputTokens = Some 0, writeTokens = Some (- 510),
       readTokens = Some (- 301), tokenValue = None, createdAt = Some (utc 2024 7 1 0 0 0)\<rparr>,
      tx (Some ''o1'') ''reasoning'' (- 2000) (Some (utc 2024 12 10 0 0 0))]"

definition db_mixed :: collection where
  "db_mixed q = Inr (Some txs_mixed)"

text \<open>The two completions of \<^verbatim>\<open>gpt-3.5-turbo\<close> of 1000 tokens, in 2023 and in 2024.\<close>

definition txs_gpt35 :: "transaction list" where
  "txs_gpt35 =
     [tx (Some ''gpt-3.5-turbo'') ''completion'' (- 1000) (Some (utc 2023 11 10 0 0 0)),
      tx (Some ''gpt-3.5-turbo'') ''completion'' (- 1000) (Some (utc 2024 6 1 0 0 0))]"

text \<open>
  The only period of \<^verbatim>\<open>o1\<close>, and a usage of 500 prompt, 1000 completion and 2000
  reasoning tokens.
\<close>

definition o1_period :: pricingPeriod where
  "o1_period = with_reasoning 15 (period (utc 2024 12 5 0 0 0) 15 60 openai)"


text \<open>A user message of 500 tokens: no model, a flat count.\<close>

definition user_message :: usageRecord where
  "user_message =
     \<lparr>ur_model = None, ur_createdAt = Some (utc 2024 6 1 0 0 0), ur_tokenCount = Some 500,
      ur_usage = None, ur_tokens = None, ur_cacheTokens = None\<rparr>"

text \<open>The only period of \<^verbatim>\<open>claude-3-5-sonnet\<close>, and a usage with cache tokens.\<close>

definition claude_period :: pricingPeriod where
  "claude_period = with_cache (375 / 100) (3 / 10) (period (utc 2024 6 20 0 0 0) 3 15 anthropic)"

definition usage_cached :: usageArg where
  "usage_cached =
     \<lparr>promptTokens = Some 200, completionTokens = Some 1000, cacheWriteTokens = Some 500,
      cacheReadTokens = Some 300, reasoningTokens = None\<rparr>"

section \<open>Properties\<close>

subsection \<open>Doubles\<close>

text \<open>Rules that evaluate the rounding of a number given by numerals.\<close>

lemma bitlen_numeral: "bitlen (numeral n) = bitlen (numeral n div 2) + 1"
  by (subst compute_bitlen) simp

lemma bitlen_one: "bitlen 1 = 1"
  by (subst compute_bitlen) simp

lemma floor_rat_numeral_div [simp]:
  "\<lfloor>(numeral a :: rat) / numeral b\<rfloor> = numeral a div numeral b"
  using floor_divide_of_int_eq [of "numeral a" "numeral b", where ?'a = rat] by simp

lemma floor_rat_one_div [simp]: "\<lfloor>(1 :: rat) / numeral b\<rfloor> = 1 div numeral b"
  using floor_divide_of_int_eq [of 1 "numeral b", where ?'a = rat] by simp

lemma floor_rat_neg_numeral_div [simp]:
  "\<lfloor>- ((numeral a :: rat) / numeral b)\<rfloor> = (- numeral a) div numeral b"
  using floor_divide_of_int_eq [of "- numeral a" "numeral b", where ?'a = rat] by simp

lemma ceiling_rat_numeral_div [simp]:
  "\<lceil>(numeral a :: rat) / numeral b\<rceil> = - ((- numeral a) div numeral b)"
  using ceiling_divide_eq_div [of "numeral a" "numeral b", where ?'a = rat] by simp

lemmas rd_eval = rd_def ilog2_def roundTiesToEven_def pow2_def Let_def bitlen_numeral bitlen_one
  fadd_def fmul_def fdiv_def

text \<open>
  Values of the rounding: integers, decimal literals, and ties, which go to the even
  mantissa. The sum of the doubles 0.1 and 0.2 is not the double 0.3, and 7 millionths
  times 5, times 100000, is below 3.5.
\<close>

lemma rd_values:
  "rd 0 = 0" "rd 1 = 1" "rd (- 3) = - 3" "rd 15 = 15" "rd 1000000 = 1000000"
  "rd (1 / 10) = 3602879701896397 / 36028797018963968"
  "rd (15 / 100) = 5404319552844595 / 36028797018963968"
  "rd (3 / 10) = 5404319552844595 / 18014398509481984"
  "rd (6 / 10) = 5404319552844595 / 9007199254740992"
  "rd (375 / 100) = 375 / 100"
  "rd (- 1 / 10) = - 3602879701896397 / 36028797018963968"
  "rd 9007199254740993 = 9007199254740992"
  "rd 9007199254740995 = 9007199254740996"
  by (simp_all add: rd_eval)

lemma Math_round_values:
  "Math_round (5 / 2) = 3" "Math_round (- 5 / 2) = - 2" "Math_round (24 / 10) = 2"
  "Math_round (9007199254740991 / 18014398509481984) = 0"
  by (simp_all add: Math_round_def)

lemma fadd_values:
  "fadd (rd (1 / 10)) (rd (2 / 10)) = 1351079888211149 / 4503599627370496"
  "fadd (rd (1 / 10)) (rd (2 / 10)) \<noteq> rd (3 / 10)"
  "fmul (fdiv 7 1000000) 5 = rd (35 / 1000000)"
  "fmul (rd (35 / 1000000)) 100000 = 7881299347898367 / 2251799813685248"
  "fmul (rd (35 / 1000000)) 100000 < 35 / 10"
  by (simp_all add: rd_eval)

text \<open>
  The rounding is a projection: the exponent of a number that is not zero is the one
  that \<open>ilog2\<close> computes, and rounding leaves a double as it is.
\<close>

lemma pow2_powi: "pow2 k = 2 powi k"
  by (simp add: pow2_def power_int_def field_simps)

lemma pow2_pos [simp]: "0 < pow2 k"
  by (simp add: pow2_powi zero_less_power_int)

lemma pow2_add: "pow2 (a + b) = pow2 a * pow2 b"
  by (simp add: pow2_powi power_int_add)

lemma pow2_mono: "a \<le> b \<Longrightarrow> pow2 a \<le> pow2 b"
  by (simp add: pow2_powi power_int_increasing)

lemma pow2_strict_mono: "a < b \<Longrightarrow> pow2 a < pow2 b"
  by (simp add: pow2_powi power_int_strict_increasing)

lemma pow2_nat: "0 \<le> k \<Longrightarrow> pow2 k = 2 ^ nat k"
  by (simp add: pow2_def)

lemma pow2_neg: "k \<le> 0 \<Longrightarrow> pow2 k = 1 / 2 ^ nat (- k)"
  by (cases "k = 0") (simp_all add: pow2_def)

lemma ilog2_bounds:
  assumes "x \<noteq> 0"
  shows "pow2 (ilog2 x) \<le> \<bar>x\<bar>" "\<bar>x\<bar> < pow2 (ilog2 x + 1)"
proof -
  have "pow2 (ilog2 x) \<le> \<bar>x\<bar> \<and> \<bar>x\<bar> < pow2 (ilog2 x + 1)"
  proof (cases "1 \<le> \<bar>x\<bar>")
    case True
    define a where "a = \<lfloor>\<bar>x\<bar>\<rfloor>"
    define b where "b = bitlen a"
    have a: "0 < a" "of_int a \<le> \<bar>x\<bar>" "\<bar>x\<bar> < of_int a + 1"
      using True floor_correct [of "\<bar>x\<bar>"] by (auto simp: a_def)
    from bitlen_bounds [OF a(1)] have bb: "2 ^ nat (b - 1) \<le> a" "a < 2 ^ nat b"
      by (simp_all add: b_def)
    have b1: "1 \<le> b"
      using a(1) bitlen_eq_zero_iff [of a] bitlen_nonneg [of a] by (simp add: b_def)
    have il: "ilog2 x = b - 1"
      using True by (simp add: ilog2_def a_def b_def)
    have "pow2 (b - 1) = of_int (2 ^ nat (b - 1))"
      using b1 by (simp add: pow2_nat)
    also have "\<dots> \<le> of_int a" using bb(1) by (simp only: of_int_le_iff)
    finally have lo: "pow2 (b - 1) \<le> \<bar>x\<bar>" using a(2) by simp
    have "a + 1 \<le> 2 ^ nat b" using bb(2) by simp
    then have "(of_int (a + 1) :: rat) \<le> of_int (2 ^ nat b)" by (simp only: of_int_le_iff)
    then have "\<bar>x\<bar> < 2 ^ nat b" using a(3) by simp
    then have hi: "\<bar>x\<bar> < pow2 b" using b1 by (simp add: pow2_nat)
    from lo hi il show ?thesis by simp
  next
    case False
    define r where "r = 1 / \<bar>x\<bar>"
    define m where "m = \<lceil>r\<rceil> - 1"
    define j where "j = bitlen m"
    have x: "0 < \<bar>x\<bar>" "\<bar>x\<bar> < 1" using assms False by simp_all
    then have r1: "1 < r" by (simp add: r_def)
    have m: "of_int m < r" "r \<le> of_int m + 1" "0 < m"
      using r1 by (simp_all add: m_def less_ceiling_iff ceiling_correct)
    from bitlen_bounds [OF m(3)] have bb: "2 ^ nat (j - 1) \<le> m" "m < 2 ^ nat j"
      by (simp_all add: j_def)
    have j1: "1 \<le> j"
      using m(3) bitlen_eq_zero_iff [of m] bitlen_nonneg [of m] by (simp add: j_def)
    have il: "ilog2 x = - j"
      using False by (simp add: ilog2_def m_def j_def r_def)
    have "m + 1 \<le> 2 ^ nat j" using bb(2) by simp
    then have "(of_int (m + 1) :: rat) \<le> of_int (2 ^ nat j)" by (simp only: of_int_le_iff)
    then have "r \<le> 2 ^ nat j" using m(2) by simp
    then have "1 / 2 ^ nat j \<le> \<bar>x\<bar>"
      using x(1) by (simp add: r_def field_simps)
    then have lo: "pow2 (- j) \<le> \<bar>x\<bar>" using j1 by (simp add: pow2_neg)
    have "(of_int (2 ^ nat (j - 1)) :: rat) \<le> of_int m" using bb(1) by (simp only: of_int_le_iff)
    then have "(2 ^ nat (j - 1) :: rat) \<le> of_int m" by simp
    then have "2 ^ nat (j - 1) < r" using m(1) by linarith
    then have "\<bar>x\<bar> < 1 / 2 ^ nat (j - 1)"
      using x(1) by (simp add: r_def field_simps)
    then have hi: "\<bar>x\<bar> < pow2 (- j + 1)" using j1 by (simp add: pow2_neg)
    from lo hi il show ?thesis by simp
  qed
  then show "pow2 (ilog2 x) \<le> \<bar>x\<bar>" "\<bar>x\<bar> < pow2 (ilog2 x + 1)" by simp_all
qed

lemma ilog2_unique:
  assumes "pow2 k \<le> \<bar>x\<bar>" "\<bar>x\<bar> < pow2 (k + 1)"
  shows "ilog2 x = k"
proof -
  have "0 < \<bar>x\<bar>" using assms(1) pow2_pos [of k] by linarith
  then have "x \<noteq> 0" by simp
  note b = ilog2_bounds [OF this]
  have "pow2 k < pow2 (ilog2 x + 1)" using assms(1) b(2) by simp
  then have "k < ilog2 x + 1" using pow2_mono [of "ilog2 x + 1" k] by (cases "k < ilog2 x + 1") auto
  moreover have "pow2 (ilog2 x) < pow2 (k + 1)" using assms(2) b(1) by simp
  then have "ilog2 x < k + 1" using pow2_mono [of "k + 1" "ilog2 x"] by (cases "ilog2 x < k + 1") auto
  ultimately show ?thesis by simp
qed

lemma roundTiesToEven_of_int [simp]: "roundTiesToEven (of_int n) = n"
  by (simp add: roundTiesToEven_def)

lemma roundTiesToEven_bounds:
  assumes "of_int a \<le> m" "m \<le> of_int b"
  shows "a \<le> roundTiesToEven m" "roundTiesToEven m \<le> b"
proof -
  have f: "a \<le> \<lfloor>m\<rfloor>" using assms(1) by (simp add: le_floor_iff)
  have c: "\<lfloor>m\<rfloor> \<le> b" using assms(2) by (simp add: floor_le_iff) 
  have c': "\<lfloor>m\<rfloor> + 1 \<le> b" if "m \<noteq> of_int \<lfloor>m\<rfloor>"
  proof -
    have "of_int \<lfloor>m\<rfloor> < m" using that of_int_floor_le [of m] by (auto simp: less_le)
    then have "of_int \<lfloor>m\<rfloor> < (of_int b :: rat)" using assms(2) by simp
    then show ?thesis by simp
  qed
  show "a \<le> roundTiesToEven m" using f by (simp add: roundTiesToEven_def Let_def)
  show "roundTiesToEven m \<le> b" using c c' by (auto simp: roundTiesToEven_def Let_def)
qed

lemma rd_zero [simp]: "rd 0 = 0"
  by (simp add: rd_def)

lemma rd_on_grid:
  assumes "y = of_int j * pow2 (max (ilog2 y - 52) (- 1074))"
  shows "rd y = y"
proof (cases "y = 0")
  case True
  then show ?thesis by (simp add: rd_def)
next
  case False
  define e where "e = max (ilog2 y - 52) (- 1074)"
  have "pow2 e \<noteq> 0" by (metis pow2_pos less_irrefl)
  then have "y / pow2 e = of_int j"
    using assms unfolding e_def [symmetric] by simp
  then have "rd y = of_int j * pow2 e"
    using False by (simp add: rd_def e_def [symmetric])
  then show ?thesis using assms by (simp add: e_def)
qed

text \<open>Rounding leaves a double as it is.\<close>

lemma rd_idem [simp]: "rd (rd x) = rd x"
proof (cases "x = 0")
  case True
  then show ?thesis by (simp add: rd_def)
next
  case False
  define k where "k = ilog2 x"
  define e where "e = max (k - 52) (- 1074)"
  define n where "n = roundTiesToEven (x / pow2 e)"
  define y where "y = of_int n * pow2 e"
  have rdx: "rd x = y"
    using False by (simp add: rd_def k_def e_def n_def y_def Let_def)
  have e_lo: "- 1074 \<le> e" and e_k: "k + 1 \<le> e + 53" by (simp_all add: e_def)
  have "\<bar>x\<bar> < pow2 (k + 1)" using ilog2_bounds(2) [OF False] by (simp add: k_def)
  also have "\<dots> \<le> pow2 (e + 53)" using e_k by (rule pow2_mono)
  also have "\<dots> = pow2 e * 2 ^ 53" by (simp add: pow2_add pow2_nat)
  finally have "\<bar>x\<bar> / pow2 e < 2 ^ 53" by (simp add: field_simps)
  then have q: "\<bar>x / pow2 e\<bar> < 2 ^ 53"
    unfolding abs_divide abs_of_pos [OF pow2_pos] .
  have h: "x / pow2 e < 2 ^ 53" "- (2 ^ 53) < x / pow2 e"
    using q unfolding abs_less_iff by linarith+
  have "of_int (- (2 ^ 53)) \<le> x / pow2 e" "x / pow2 e \<le> of_int (2 ^ 53)"
    using h by simp_all
  from roundTiesToEven_bounds [OF this] have nb: "\<bar>n\<bar> \<le> 2 ^ 53"
    by (simp add: n_def abs_le_iff)
  have absy: "\<bar>y\<bar> = of_int \<bar>n\<bar> * pow2 e"
    by (simp add: y_def abs_mult abs_of_pos)
  show ?thesis
  proof (cases "\<bar>n\<bar> < 2 ^ 53")
    case True
    show ?thesis
    proof (cases "y = 0")
      case True
      with rdx show ?thesis by (simp add: rd_def)
    next
      case y0: False
      define e' where "e' = max (ilog2 y - 52) (- 1074)"
      have "(of_int \<bar>n\<bar> :: rat) < of_int (2 ^ 53)" using True by (simp only: of_int_less_iff)
      then have "\<bar>y\<bar> < 2 ^ 53 * pow2 e" unfolding absy by simp
      also have "\<dots> = pow2 (e + 53)" by (simp add: pow2_add pow2_nat)
      finally have "pow2 (ilog2 y) < pow2 (e + 53)"
        using ilog2_bounds(1) [OF y0] by simp
      then have "ilog2 y < e + 53"
        using pow2_mono [of "e + 53" "ilog2 y"] by (cases "ilog2 y < e + 53") auto
      then have le: "e' \<le> e" using e_lo by (simp add: e'_def)
      have "pow2 e = pow2 ((e - e') + e')" by simp
      also have "\<dots> = 2 ^ nat (e - e') * pow2 e'"
        unfolding pow2_add using le by (simp add: pow2_nat)
      finally have "y = of_int (n * 2 ^ nat (e - e')) * pow2 e'"
        by (simp add: y_def)
      then have "rd y = y" unfolding e'_def by (rule rd_on_grid)
      with rdx show ?thesis by simp
    qed
  next
    case False
    with nb have n: "\<bar>n\<bar> = 2 ^ 53" by simp
    then have absy': "\<bar>y\<bar> = pow2 (e + 53)"
      unfolding absy by (simp add: pow2_add pow2_nat)
    have "ilog2 y = e + 53"
      by (rule ilog2_unique) (simp_all add: absy' pow2_strict_mono)
    then have e': "max (ilog2 y - 52) (- 1074) = e + 1" using e_lo by simp
    have "n = 9007199254740992 \<or> n = - 9007199254740992" using n by simp linarith
    then have "n = 2 * (n div 2)" by auto
    then have "of_int n = (2 :: rat) * of_int (n div 2)"
      by (metis of_int_mult of_int_numeral)
    moreover have "pow2 (e + 1) = 2 * pow2 e" by (simp add: pow2_add pow2_nat)
    ultimately have "y = of_int (n div 2) * pow2 (max (ilog2 y - 52) (- 1074))"
      unfolding e' by (simp add: y_def)
    then have "rd y = y" by (rule rd_on_grid)
    with rdx show ?thesis by simp
  qed
qed

text \<open>
  The rounding moves a number by at most half the spacing of the doubles around it, which
  for a number that is not subnormal is at most the number over \<open>2\<^sup>5\<^sup>3\<close>.
\<close>

lemma roundTiesToEven_error: "\<bar>of_int (roundTiesToEven m) - m\<bar> \<le> 1 / 2"
proof -
  have "of_int \<lfloor>m\<rfloor> \<le> m" "m < of_int \<lfloor>m\<rfloor> + 1" by linarith+
  then show ?thesis by (auto simp: roundTiesToEven_def Let_def abs_le_iff)
qed

lemma rd_error:
  assumes "x \<noteq> 0"
  shows "\<bar>rd x - x\<bar> \<le> pow2 (max (ilog2 x - 52) (- 1074)) / 2"
proof -
  define e where "e = max (ilog2 x - 52) (- 1074)"
  have ne: "pow2 e \<noteq> 0" by (metis pow2_pos less_irrefl)
  have "rd x - x = (of_int (roundTiesToEven (x / pow2 e)) - x / pow2 e) * pow2 e"
    using assms ne by (simp add: rd_def e_def [symmetric] Let_def field_simps)
  then have "\<bar>rd x - x\<bar> = \<bar>of_int (roundTiesToEven (x / pow2 e)) - x / pow2 e\<bar> * pow2 e"
    by (simp add: abs_mult abs_of_pos)
  also have "\<dots> \<le> 1 / 2 * pow2 e"
    by (rule mult_right_mono [OF roundTiesToEven_error]) (simp add: less_imp_le)
  finally show ?thesis by (simp add: e_def)
qed

lemma rd_relative_error:
  assumes "pow2 (- 1022) \<le> \<bar>x\<bar>"
  shows "\<bar>rd x - x\<bar> \<le> \<bar>x\<bar> / 2 ^ 53"
proof -
  have "0 < \<bar>x\<bar>" using assms pow2_pos [of "- 1022"] by linarith
  then have x: "x \<noteq> 0" by simp
  have "pow2 (- 1022) < pow2 (ilog2 x + 1)"
    using assms ilog2_bounds(2) [OF x] by simp
  then have "- 1022 < ilog2 x + 1"
    using pow2_mono [of "ilog2 x + 1" "- 1022"] by (cases "- 1022 < ilog2 x + 1") auto
  then have e: "max (ilog2 x - 52) (- 1074) = ilog2 x - 52" by simp
  have "pow2 (ilog2 x) = pow2 ((ilog2 x - 52) + 52)" by simp
  also have "\<dots> = pow2 (ilog2 x - 52) * 2 ^ 52" unfolding pow2_add by (simp add: pow2_nat)
  finally have "pow2 (ilog2 x - 52) / 2 = pow2 (ilog2 x) / 2 ^ 53" by simp
  also have "\<dots> \<le> \<bar>x\<bar> / 2 ^ 53"
    using ilog2_bounds(1) [OF x] by (simp add: divide_right_mono)
  finally show ?thesis using rd_error [OF x] unfolding e by simp
qed

subsection \<open>Pricing resolver\<close>

text \<open>
  C1. The claim requires \<^verbatim>\<open>getPricingForDate\<close> to return \<^verbatim>\<open>null\<close> for every model
  that has no entry in the table. For a name that the table object inherits, such as
  \<^verbatim>\<open>constructor\<close>, the lookup is truthy, its \<^verbatim>\<open>pricing\<close> is \<^verbatim>\<open>undefined\<close>,
  and the loop over it raises \<^verbatim>\<open>TypeError\<close>, whatever the date.
\<close>

theorem getPricingForDate_inherited_name:
  "getPricingForDate ''constructor'' date = Inl TypeError"
  by (simp add: getPricingForDate_def inPeriod_def PRICING_CONFIG_get_def PRICING_CONFIG_def
      Object_prototype_keys_def)

subsection \<open>Cost of one usage\<close>

lemma calculateCost_returns:
  assumes "getPricingForDate modelId (Date t) = Inr (Some pr)"
  shows "calculateCost modelId u (Date t) =
           Inr (Some \<lparr>cost_prompt = categoryCost (promptTokens u) (prompt pr),
                      cost_completion = categoryCost (completionTokens u) (completion pr),
                      cost_cacheWrite = optionalCategoryCost (cacheWriteTokens u) (cacheWritePrice pr),
                      cost_cacheRead = optionalCategoryCost (cacheReadTokens u) (cacheReadPrice pr),
                      cost_reasoning = optionalCategoryCost (reasoningTokens u) (reasoningPrice pr),
                      cost_total =
                        fadd (fadd (fadd (fadd
                          (categoryCost (promptTokens u) (prompt pr))
                          (categoryCost (completionTokens u) (completion pr)))
                          (optionalCategoryCost (cacheWriteTokens u) (cacheWritePrice pr)))
                          (optionalCategoryCost (cacheReadTokens u) (cacheReadPrice pr)))
                          (optionalCategoryCost (reasoningTokens u) (reasoningPrice pr)),
                      cost_modelId = modelId, cost_pricing = pr, cost_date = t\<rparr>)"
  using assms by (simp add: calculateCost_def Let_def)

lemma categoryCost_eq:
  "categoryCost n price =
     (if or0 n \<noteq> 0 then rd (rd (of_int (or0 n) / 1000000) * price) else 0)"
  by (cases n) (simp_all add: categoryCost_def fmul_def fdiv_def)

lemma optionalCategoryCost_eq:
  "optionalCategoryCost n price =
     (case price of
        None \<Rightarrow> 0
      | Some w \<Rightarrow> if or0 n \<noteq> 0 \<and> w \<noteq> 0 then rd (rd (of_int (or0 n) / 1000000) * w) else 0)"
  by (cases n; cases price) (simp_all add: optionalCategoryCost_def fmul_def fdiv_def)

text \<open>
  At a date that is a point in time, when the pricing of the model resolves to a
  period, \<^verbatim>\<open>calculateCost\<close> returns a cost object. Each of the five categories is the
  count over 1,000,000, rounded, times the unit price, rounded, if the count is not zero
  and the period has a price for the category that is not zero, and 0 otherwise; the
  total is the sum of the five from left to right. A count that is absent reads as 0.
\<close>

lemma calculateCost_categories:
  assumes "getPricingForDate modelId (Date t) = Inr (Some pr)"
  shows "\<exists>c. calculateCost modelId u (Date t) = Inr (Some c) \<and>
    cost_prompt c =
      (if or0 (promptTokens u) \<noteq> 0
       then rd (rd (of_int (or0 (promptTokens u)) / 1000000) * prompt pr) else 0) \<and>
    cost_completion c =
      (if or0 (completionTokens u) \<noteq> 0
       then rd (rd (of_int (or0 (completionTokens u)) / 1000000) * completion pr) else 0) \<and>
    cost_cacheWrite c =
      (case cache pr of
         None \<Rightarrow> 0
       | Some k \<Rightarrow>
           (case cache_write k of
              None \<Rightarrow> 0
            | Some w \<Rightarrow>
                if or0 (cacheWriteTokens u) \<noteq> 0 \<and> w \<noteq> 0
                then rd (rd (of_int (or0 (cacheWriteTokens u)) / 1000000) * w) else 0)) \<and>
    cost_cacheRead c =
      (case cache pr of
         None \<Rightarrow> 0
       | Some k \<Rightarrow>
           (case cache_read k of
              None \<Rightarrow> 0
            | Some w \<Rightarrow>
                if or0 (cacheReadTokens u) \<noteq> 0 \<and> w \<noteq> 0
                then rd (rd (of_int (or0 (cacheReadTokens u)) / 1000000) * w) else 0)) \<and>
    cost_reasoning c =
      (case reasoning pr of
         None \<Rightarrow> 0
       | Some k \<Rightarrow>
           (case tokens k of
              None \<Rightarrow> 0
            | Some w \<Rightarrow>
                if or0 (reasoningTokens u) \<noteq> 0 \<and> w \<noteq> 0
                then rd (rd (of_int (or0 (reasoningTokens u)) / 1000000) * w) else 0)) \<and>
    cost_total c =
      rd (rd (rd (rd (cost_prompt c + cost_completion c) + cost_cacheWrite c) + cost_cacheRead c)
        + cost_reasoning c) \<and>
    cost_modelId c = modelId \<and> cost_pricing c = pr \<and> cost_date c = t"
  unfolding calculateCost_returns [OF assms]
  by (simp add: categoryCost_eq optionalCategoryCost_eq cacheWritePrice_def cacheReadPrice_def
      reasoningPrice_def fadd_def split: option.splits)


lemma claude_lookup:
  "getPricingForDate ''claude-3-5-sonnet'' (Date (utc 2024 6 1 0 0 0)) = Inr (Some claude_period)"
  by (simp add: getPricingForDate_def inPeriod_def PRICING_CONFIG_get_def PRICING_CONFIG_def lastPeriod_def
      claude_period_def with_cache_def period_def utc_def days_from_civil_def)


text \<open>
  The cache-aware example: 200 prompt tokens, 1000 completion tokens, 500 cache-write and
  300 cache-read tokens of \<^verbatim>\<open>claude-3-5-sonnet\<close> on 2024-06-01. The completion costs
  0.015 and the cache write 0.001875; the prompt costs 0.0006000000000000001 and the cache
  read 0.00008999999999999999, one unit in the last place off 0.0006 and 0.00009.
\<close>

lemma claude_cached_cost:
  "calculateCost ''claude-3-5-sonnet'' usage_cached (Date (utc 2024 6 1 0 0 0)) =
     Inr (Some \<lparr>cost_prompt = 2767011611056433 / 4611686018427387904,
                cost_completion = rd (15 / 1000),
                cost_cacheWrite = rd (1875 / 1000000),
                cost_cacheRead = 3320413933267719 / 36893488147419103232,
                cost_reasoning = 0,
                cost_total = 316422909819051 / 18014398509481984,
                cost_modelId = ''claude-3-5-sonnet'', cost_pricing = claude_period,
                cost_date = utc 2024 6 1 0 0 0\<rparr>)"
  "rd (6 / 10000) < (2767011611056433 / 4611686018427387904 :: rat)"
  "(3320413933267719 / 36893488147419103232 :: rat) < rd (9 / 100000)"
  by (simp_all add: calculateCost_returns [OF claude_lookup] usage_cached_def categoryCost_def
      optionalCategoryCost_def cacheWritePrice_def cacheReadPrice_def reasoningPrice_def
      claude_period_def with_cache_def period_def rd_eval)


subsection \<open>Records without a timestamp\<close>

lemma gpt4_lookup_invalid:
  "getPricingForDate ''gpt-4'' InvalidDate = Inr (Some (period (utc 2024 1 1 0 0 0) 30 60 openai))"
  by (simp add: getPricingForDate_def inPeriod_def PRICING_CONFIG_get_def PRICING_CONFIG_def lastPeriod_def)

text \<open>
  An absent or empty list of transactions gives \<^verbatim>\<open>null\<close>, and a transaction
  without model is passed over: it leaves costs, tokens and models as they are.
\<close>

lemma no_transactions:
  "costOfTransactions cid None = Inr None" "costOfTransactions cid (Some []) = Inr None"
  by (simp_all add: costOfTransactions_def)

lemma no_model:
  assumes "model t = None \<or> model t = Some []"
  shows "\<exists>st'. processTransaction st t = Inr st' \<and>
    acc_costBreakdown st' = acc_costBreakdown st \<and> acc_tokenUsage st' = acc_tokenUsage st \<and>
    acc_modelBreakdown st' = acc_modelBreakdown st"
  using assms by (auto simp: processTransaction_def trackLastUpdated_def)

text \<open>
  C5. The claim requires the cost calculation never to raise on a record without a
  timestamp. For a transaction of a priced model without \<^verbatim>\<open>createdAt\<close> the date is
  invalid, the fallback period is found, and \<^verbatim>\<open>calculateCost\<close> raises
  \<^verbatim>\<open>RangeError\<close> at \<^verbatim>\<open>date.toISOString()\<close>; \<^verbatim>\<open>calculateConversationCost\<close> raises
  it again.
\<close>

theorem no_timestamp_raises:
  "calculateCost ''gpt-4'' (currentTokenUsage tx_no_timestamp) (new_Date (createdAt tx_no_timestamp))
     = Inl RangeError \<and>
   calculateConversationCost db_no_timestamp ''conversation'' None = Inl RangeError"
  by (simp add: calculateConversationCost_def db_no_timestamp_def costOfTransactions_def
      processTransaction_def tx_no_timestamp_def tx_def calculateCost_def gpt4_lookup_invalid
      Let_def)

subsection \<open>The loop body\<close>

lemma processTransaction_skipped:
  assumes "model t = None \<or> model t = Some []"
  shows "processTransaction st t = Inr (trackLastUpdated st t)"
  using assms by (auto simp: processTransaction_def Let_def)

lemma processTransaction_priced:
  assumes "model t = Some modelId" "modelId \<noteq> []"
    and "calculateCost modelId (currentTokenUsage t) (new_Date (createdAt t)) = Inr (Some c)"
  shows "processTransaction st t =
     Inr ((trackLastUpdated st t)
       \<lparr>acc_costBreakdown := addCosts (acc_costBreakdown st) c,
        acc_modelBreakdown :=
          AList.update modelId
            ((modelDataOf (acc_modelBreakdown st) modelId)
               \<lparr>transactionCount := transactionCount (modelDataOf (acc_modelBreakdown st) modelId) + 1,
                md_cost := fadd (md_cost (modelDataOf (acc_modelBreakdown st) modelId)) (cost_total c),
                md_tokenUsage :=
                  addTokens (md_tokenUsage (modelDataOf (acc_modelBreakdown st) modelId))
                    (currentTokenUsage t)\<rparr>)
            (acc_modelBreakdown st),
        acc_tokenUsage := addTokens (acc_tokenUsage st) (currentTokenUsage t)\<rparr>)"
  using assms by (simp add: processTransaction_def Let_def trackLastUpdated_def)

lemma processTransaction_unpriced:
  assumes "model t = Some modelId" "modelId \<noteq> []"
    and "calculateCost modelId (currentTokenUsage t) (new_Date (createdAt t)) = Inr None"
  shows "processTransaction st t =
     Inr ((trackLastUpdated st t)
       \<lparr>acc_costBreakdown := addFallback (acc_costBreakdown st) t,
        acc_modelBreakdown :=
          AList.update modelId
            ((modelDataOf (acc_modelBreakdown st) modelId)
               \<lparr>transactionCount := transactionCount (modelDataOf (acc_modelBreakdown st) modelId) + 1,
                md_cost := fadd (md_cost (modelDataOf (acc_modelBreakdown st) modelId)) (fallbackCost t)\<rparr>)
            (acc_modelBreakdown st),
        acc_tokenUsage := addTokens (acc_tokenUsage st) (currentTokenUsage t)\<rparr>)"
  using assms by (simp add: processTransaction_def Let_def trackLastUpdated_def)

lemma processTransaction_raises:
  assumes "model t = Some modelId" "modelId \<noteq> []"
    and "calculateCost modelId (currentTokenUsage t) (new_Date (createdAt t)) = Inl e"
  shows "processTransaction st t = Inl e"
  using assms by (simp add: processTransaction_def Let_def)

lemma modelDataOf_update [simp]: "modelDataOf (AList.update k v mb) k = v"
  by (simp add: modelDataOf_def update_conv')

lemma modelDataOf_update_other: "m \<noteq> k \<Longrightarrow> modelDataOf (AList.update k v mb) m = modelDataOf mb m"
  by (simp add: modelDataOf_def update_conv')

lemma calculateCost_not_found:
  "getPricingForDate modelId date = Inr None \<Longrightarrow> calculateCost modelId u date = Inr None"
  by (simp add: calculateCost_def)

lemma trackLastUpdated_fields [simp]:
  "acc_costBreakdown (trackLastUpdated st t) = acc_costBreakdown st"
  "acc_tokenUsage (trackLastUpdated st t) = acc_tokenUsage st"
  "acc_modelBreakdown (trackLastUpdated st t) = acc_modelBreakdown st"
  by (simp_all add: trackLastUpdated_def)


lemma unknown_lookup:
  "getPricingForDate ''my-local-model'' d = Inr None"
  "getPricingForDate ''unknown-model-xyz'' d = Inr None"
  by (simp_all add: getPricingForDate_def inPeriod_def PRICING_CONFIG_get_def PRICING_CONFIG_def
      Object_prototype_keys_def)












subsection \<open>The loop\<close>

lemma processTransaction_outcomes:
  obtains (skipped) "model t = None \<or> model t = Some []"
  | (priced) modelId c where "model t = Some modelId" "modelId \<noteq> []"
      "calculateCost modelId (currentTokenUsage t) (new_Date (createdAt t)) = Inr (Some c)"
  | (unpriced) modelId where "model t = Some modelId" "modelId \<noteq> []"
      "calculateCost modelId (currentTokenUsage t) (new_Date (createdAt t)) = Inr None"
  | (raises) modelId e where "model t = Some modelId" "modelId \<noteq> []"
      "calculateCost modelId (currentTokenUsage t) (new_Date (createdAt t)) = Inl e"
proof (cases "model t")
  case None
  then show ?thesis using skipped by simp
next
  case (Some modelId)
  show ?thesis
  proof (cases "modelId = []")
    case True
    with Some show ?thesis using skipped by simp
  next
    case False
    show ?thesis
    proof (cases "calculateCost modelId (currentTokenUsage t) (new_Date (createdAt t))")
      case (Inl e)
      with Some False show ?thesis using raises by blast
    next
      case (Inr r)
      with Some False show ?thesis using priced unpriced by (cases r) blast+
    qed
  qed
qed

lemma processTransaction_lastUpdated:
  assumes "processTransaction st t = Inr st'"
  shows "acc_lastUpdated st' = acc_lastUpdated (trackLastUpdated st t)"
proof (cases t rule: processTransaction_outcomes)
  case skipped
  with assms show ?thesis by (simp add: processTransaction_skipped)
next
  case (priced modelId c)
  with assms show ?thesis by (auto simp: processTransaction_priced)
next
  case (unpriced modelId)
  with assms show ?thesis by (auto simp: processTransaction_unpriced)
next
  case (raises modelId e)
  with assms show ?thesis by (simp add: processTransaction_raises)
qed

lemma trackLastUpdated_value:
  assumes "acc_lastUpdated st = Date a"
  shows "acc_lastUpdated (trackLastUpdated st t) =
     Date (case createdAt t of None \<Rightarrow> a | Some d \<Rightarrow> max a d)"
  using assms by (cases "createdAt t") (auto simp: trackLastUpdated_def)

lemma timestamps_Cons:
  "timestamps (t # ts) = (case createdAt t of None \<Rightarrow> [] | Some d \<Rightarrow> [d]) @ timestamps ts"
  by (simp add: timestamps_def)

lemma processTransactions_lastUpdated:
  assumes "processTransactions st ts = Inr st'" and "acc_lastUpdated st = Date a"
  shows "acc_lastUpdated st' = Date (fold max (timestamps ts) a)"
  using assms
proof (induction ts arbitrary: st a)
  case Nil
  then show ?case by (simp add: timestamps_def)
next
  case (Cons t ts)
  from Cons.prems(1) obtain st1 where step: "processTransaction st t = Inr st1"
    and rest: "processTransactions st1 ts = Inr st'"
    by (auto split: sum.splits)
  have "acc_lastUpdated st1 = Date (case createdAt t of None \<Rightarrow> a | Some d \<Rightarrow> max a d)"
    using processTransaction_lastUpdated [OF step] trackLastUpdated_value [OF Cons.prems(2)]
    by simp
  from Cons.IH [OF rest this] show ?case
    by (cases "createdAt t") (simp_all add: timestamps_Cons max.commute)
qed

lemma costOfTransactions_Some:
  assumes "costOfTransactions cid (Some ts) = Inr (Some s)"
  obtains st where "ts \<noteq> []" "processTransactions initial ts = Inr st" "summarize cid st = Inr s"
  using assms by (auto simp: costOfTransactions_def split: if_splits sum.splits)

lemma summarize_fields:
  assumes "summarize cid st = Inr s"
  shows "lastUpdated s = acc_lastUpdated st" "tokenUsage s = acc_tokenUsage st"
    "costBreakdown s = roundCosts (acc_costBreakdown st)"
    "totalCost s = round5 (sumCosts (acc_costBreakdown st))"
    "conversationId s = cid"
  using assms by (auto simp: summarize_def split: sum.splits)

text \<open>
  C6, as amended. When a summary is returned, its \<^verbatim>\<open>lastUpdated\<close> is the latest of
  the epoch (time value 0) and the timestamps of all records of the list; so it is the
  maximum timestamp observed as soon as some record has a timestamp after the epoch, and
  it is the epoch when no record carries a timestamp.
\<close>

theorem lastUpdated_latest_or_epoch:
  assumes "db (buildQuery cid userId) = Inr (Some ts)"
    and "calculateConversationCost db cid userId = Inr (Some s)"
  shows "lastUpdated s = Date (Max (set (0 # timestamps ts))) \<and>
    ((\<exists>d \<in> set (timestamps ts). 0 < d) \<longrightarrow> lastUpdated s = Date (Max (set (timestamps ts)))) \<and>
    (timestamps ts = [] \<longrightarrow> lastUpdated s = Date 0)"
proof -
  from assms have "costOfTransactions cid (Some ts) = Inr (Some s)"
    by (simp add: calculateConversationCost_def)
  then obtain st where st: "processTransactions initial ts = Inr st" "summarize cid st = Inr s"
    by (rule costOfTransactions_Some)
  have "acc_lastUpdated st = Date (fold max (timestamps ts) 0)"
    by (rule processTransactions_lastUpdated [OF st(1)]) (simp add: initial_def)
  then have main: "lastUpdated s = Date (Max (set (0 # timestamps ts)))"
    using summarize_fields(1) [OF st(2)] by (simp only: Max.set_eq_fold)
  have "Max (set (0 # timestamps ts)) = Max (set (timestamps ts))"
    if "\<exists>d \<in> set (timestamps ts). 0 < d"
  proof -
    from that obtain d where d: "d \<in> set (timestamps ts)" "0 < d" by blast
    then have ne: "set (timestamps ts) \<noteq> {}" by auto
    have "0 \<le> Max (set (timestamps ts))"
      using Max_ge [OF _ d(1)] d(2) by simp
    then show ?thesis using ne by (simp add: max_def)
  qed
  with main show ?thesis by simp
qed

subsection \<open>When a summary is returned\<close>

lemma raisesOn_iff:
  "raisesOn t \<longleftrightarrow>
     (\<exists>modelId e. model t = Some modelId \<and> modelId \<noteq> [] \<and>
        calculateCost modelId (currentTokenUsage t) (new_Date (createdAt t)) = Inl e)"
proof (cases t rule: processTransaction_outcomes)
  case skipped
  then show ?thesis by (auto simp: raisesOn_def processTransaction_skipped)
next
  case (priced modelId c)
  then show ?thesis by (simp add: raisesOn_def processTransaction_priced)
next
  case (unpriced modelId)
  then show ?thesis by (simp add: raisesOn_def processTransaction_unpriced)
next
  case (raises modelId e)
  then show ?thesis by (simp add: raisesOn_def processTransaction_raises)
qed

lemma processTransaction_returns:
  assumes "\<not> raisesOn t"
  shows "\<exists>st'. processTransaction st t = Inr st'"
proof (cases t rule: processTransaction_outcomes)
  case skipped
  then show ?thesis by (simp add: processTransaction_skipped)
next
  case (priced modelId c)
  then show ?thesis by (simp add: processTransaction_priced)
next
  case (unpriced modelId)
  then show ?thesis by (simp add: processTransaction_unpriced)
next
  case (raises modelId e)
  with assms show ?thesis by (auto simp: raisesOn_iff)
qed

lemma processTransactions_returns:
  assumes "list_all (\<lambda>t. \<not> raisesOn t) ts"
  shows "\<exists>st'. processTransactions st ts = Inr st'"
  using assms
proof (induction ts arbitrary: st)
  case Nil
  then show ?case by simp
next
  case (Cons t ts)
  then obtain st1 where "processTransaction st t = Inr st1"
    using processTransaction_returns [of t st] by auto
  with Cons show ?case by simp
qed

lemma calculateCost_Inr_not_inherited:
  "calculateCost modelId u date = Inr r \<Longrightarrow> PRICING_CONFIG_get modelId \<noteq> Inherited"
  by (auto simp: calculateCost_def getPricingForDate_def split: sum.splits property.splits)

lemma modelDataOf_keyed: "keyed mb \<Longrightarrow> md_modelId (modelDataOf mb k) = k"
  by (auto simp: keyed_def list_all_iff modelDataOf_def newModelData_def split: option.splits
      dest: map_of_SomeD)

lemma set_update_subset: "set (AList.update k v al) \<subseteq> insert (k, v) (set al)"
  by (induction al) auto

lemma keyed_update:
  assumes "keyed mb" "md_modelId v = k" "PRICING_CONFIG_get k \<noteq> Inherited"
  shows "keyed (AList.update k v mb)"
  using assms set_update_subset [of k v mb] by (fastforce simp: keyed_def list_all_iff)

lemma processTransaction_keyed:
  assumes "processTransaction st t = Inr st'" and "keyed (acc_modelBreakdown st)"
  shows "keyed (acc_modelBreakdown st')"
proof (cases t rule: processTransaction_outcomes)
  case skipped
  with assms show ?thesis by (auto simp: processTransaction_skipped)
next
  case (priced modelId c)
  with assms show ?thesis
    by (auto simp: processTransaction_priced modelDataOf_keyed
        intro!: keyed_update calculateCost_Inr_not_inherited)
next
  case (unpriced modelId)
  with assms show ?thesis
    by (auto simp: processTransaction_unpriced modelDataOf_keyed
        intro!: keyed_update calculateCost_Inr_not_inherited)
next
  case (raises modelId e)
  with assms show ?thesis by (simp add: processTransaction_raises)
qed

lemma processTransactions_keyed:
  assumes "processTransactions st ts = Inr st'" and "keyed (acc_modelBreakdown st)"
  shows "keyed (acc_modelBreakdown st')"
  using assms
proof (induction ts arbitrary: st)
  case Nil
  then show ?case by simp
next
  case (Cons t ts)
  from Cons.prems(1) obtain st1 where "processTransaction st t = Inr st1"
    "processTransactions st1 ts = Inr st'"
    by (auto split: sum.splits)
  with Cons.IH processTransaction_keyed Cons.prems(2) show ?case by blast
qed

lemma withModelInfo_returns:
  "PRICING_CONFIG_get (md_modelId m) \<noteq> Inherited \<Longrightarrow> \<exists>x. withModelInfo m = Inr x"
  by (cases "PRICING_CONFIG_get (md_modelId m)") (simp_all add: withModelInfo_def getModelInfo_def)

lemma mapModels_returns:
  "keyed mb \<Longrightarrow> \<exists>xs. mapModels (map snd mb) = Inr xs"
proof (induction mb)
  case Nil
  then show ?case by simp
next
  case (Cons p mb)
  then have "keyed mb" and "PRICING_CONFIG_get (md_modelId (snd p)) \<noteq> Inherited"
    by (auto simp: keyed_def)
  with Cons.IH withModelInfo_returns [of "snd p"] show ?case by auto
qed

lemma costOfTransactions_returns:
  assumes "ts \<noteq> []" and "list_all (\<lambda>t. \<not> raisesOn t) ts"
  shows "\<exists>s. costOfTransactions cid (Some ts) = Inr (Some s)"
proof -
  from processTransactions_returns [OF assms(2)]
  obtain st where st: "processTransactions initial ts = Inr st" by blast
  have "keyed (acc_modelBreakdown st)"
    by (rule processTransactions_keyed [OF st]) (simp add: keyed_def initial_def)
  then obtain xs where "mapModels (map snd (acc_modelBreakdown st)) = Inr xs"
    using mapModels_returns by blast
  with st assms(1) show ?thesis
    by (simp add: costOfTransactions_def summarize_def)
qed

subsection \<open>The last update\<close>

lemma gpt4_lookup:
  "1704067200000 \<le> d \<Longrightarrow>
   getPricingForDate ''gpt-4'' (Date d) = Inr (Some (period (utc 2024 1 1 0 0 0) 30 60 openai))"
  by (simp add: getPricingForDate_def inPeriod_def PRICING_CONFIG_get_def PRICING_CONFIG_def period_def
      utc_def days_from_civil_def)

lemma gpt4_completion_returns:
  "1704067200000 \<le> d \<Longrightarrow> \<not> raisesOn (tx (Some ''gpt-4'') ty n (Some d))"
  by (simp add: raisesOn_iff tx_def calculateCost_returns [OF gpt4_lookup])

lemma utc_values:
  "utc 2024 6 1 10 0 0 = 1717236000000" "utc 2024 6 1 15 0 0 = 1717254000000"
  "utc 2024 6 1 12 0 0 = 1717243200000" "utc 2024 6 1 0 0 0 = 1717200000000"
  by (simp_all add: utc_def days_from_civil_def)

lemma txs_three_returns:
  "\<exists>s. calculateConversationCost db_three ''conversation'' None = Inr (Some s)"
  unfolding calculateConversationCost_def db_three_def sum.case
  by (rule costOfTransactions_returns)
     (simp_all add: txs_three_def gpt4_completion_returns utc_values)

lemma tx_user_returns:
  "\<exists>s. calculateConversationCost db_user ''conversation'' None = Inr (Some s)"
  unfolding calculateConversationCost_def db_user_def sum.case
  by (rule costOfTransactions_returns) (simp_all add: raisesOn_iff tx_user_def tx_def)

text \<open>
  Three completions at 10:00, 15:00 and 12:00 give 15:00; a single record without
  timestamp gives the epoch.
\<close>

theorem lastUpdated_latest_or_epoch_witness:
  "db_three (buildQuery ''conversation'' None) = Inr (Some txs_three) \<and>
   utc 2024 6 1 15 0 0 \<in> set (timestamps txs_three) \<and> 0 < utc 2024 6 1 15 0 0 \<and>
   lastUpdatedOf (calculateConversationCost db_three ''conversation'' None)
     = Inr (Some (Date (utc 2024 6 1 15 0 0))) \<and>
   db_user (buildQuery ''conversation'' None) = Inr (Some [tx_user]) \<and>
   timestamps [tx_user] = [] \<and>
   lastUpdatedOf (calculateConversationCost db_user ''conversation'' None) = Inr (Some (Date 0))"
proof -
  have three: "db_three (buildQuery ''conversation'' None) = Inr (Some txs_three)"
    by (simp add: db_three_def)
  have user: "db_user (buildQuery ''conversation'' None) = Inr (Some [tx_user])"
    by (simp add: db_user_def)
  have ts3: "timestamps txs_three = [1717236000000, 1717254000000, 1717243200000]"
    by (simp add: timestamps_def txs_three_def tx_def utc_values)
  have ts1: "timestamps [tx_user] = []"
    by (simp add: timestamps_def tx_user_def tx_def)
  obtain s where s: "calculateConversationCost db_three ''conversation'' None = Inr (Some s)"
    using txs_three_returns by blast
  obtain s' where s': "calculateConversationCost db_user ''conversation'' None = Inr (Some s')"
    using tx_user_returns by blast
  have "lastUpdated s = Date (utc 2024 6 1 15 0 0)"
    using lastUpdated_latest_or_epoch [OF three s] by (simp add: ts3 utc_values)
  moreover have "lastUpdated s' = Date 0"
    using lastUpdated_latest_or_epoch [OF user s'] by (simp add: ts1)
  ultimately show ?thesis
    using three user s s' by (simp add: lastUpdatedOf_def ts3 ts1 utc_values)
qed

text \<open>
  C6 as stated fails: for a conversation whose only record has no timestamp, the summary
  has the epoch as \<^verbatim>\<open>lastUpdated\<close>, whatever the current time is.
\<close>

theorem lastUpdated_without_timestamp_counterexample:
  "timestamps [tx_undated] = [] \<and>
   lastUpdatedOf (calculateConversationCost db_undated ''conversation'' None) = Inr (Some (Date 0))"
proof -
  have ts: "timestamps [tx_undated] = []"
    by (simp add: timestamps_def tx_undated_def tx_def)
  have "\<not> raisesOn tx_undated"
    by (simp add: raisesOn_iff tx_undated_def tx_def calculateCost_not_found [OF unknown_lookup(2)])
  then obtain s where s: "costOfTransactions ''conversation'' (Some [tx_undated]) = Inr (Some s)"
    using costOfTransactions_returns [of "[tx_undated]" "''conversation''"] by auto
  then obtain st where st: "processTransactions initial [tx_undated] = Inr st"
    "summarize ''conversation'' st = Inr s"
    by (rule costOfTransactions_Some)
  have "acc_lastUpdated st = Date (fold max (timestamps [tx_undated]) 0)"
    by (rule processTransactions_lastUpdated [OF st(1)]) (simp add: initial_def)
  then have "lastUpdated s = Date 0"
    using summarize_fields(1) [OF st(2)] by (simp add: ts)
  with s ts show ?thesis
    by (simp add: calculateConversationCost_def db_undated_def lastUpdatedOf_def)
qed

subsection \<open>Rounding of the result\<close>

lemma contribution_cases:
  "model t = None \<or> model t = Some [] \<Longrightarrow> contribution t = zeroCosts"
  "model t = Some modelId \<Longrightarrow> modelId \<noteq> [] \<Longrightarrow>
     calculateCost modelId (currentTokenUsage t) (new_Date (createdAt t)) = Inr (Some c) \<Longrightarrow>
     contribution t =
       \<lparr>cb_prompt = cost_prompt c, cb_completion = cost_completion c,
        cb_cacheWrite = cost_cacheWrite c, cb_cacheRead = cost_cacheRead c,
        cb_reasoning = cost_reasoning c\<rparr>"
  "model t = Some modelId \<Longrightarrow> modelId \<noteq> [] \<Longrightarrow>
     calculateCost modelId (currentTokenUsage t) (new_Date (createdAt t)) = Inr None \<Longrightarrow>
     contribution t =
       (if tokenType t = Some ''completion''
        then zeroCosts\<lparr>cb_completion := rd (\<bar>or0_rat (tokenValue t)\<bar> / 1000000)\<rparr>
        else zeroCosts\<lparr>cb_prompt := rd (\<bar>or0_rat (tokenValue t)\<bar> / 1000000)\<rparr>)"
  by (auto simp: contribution_def)

text \<open>
  One run of the loop body adds the contribution of the transaction to each of the five
  sums and rounds; a sum to which the body adds nothing is a double and stays as it is.
\<close>

lemma processTransaction_costs:
  assumes "processTransaction st t = Inr st'" and "doubles (acc_costBreakdown st)"
  shows "cb_prompt (acc_costBreakdown st') =
           rd (cb_prompt (acc_costBreakdown st) + cb_prompt (contribution t))"
    and "cb_completion (acc_costBreakdown st') =
           rd (cb_completion (acc_costBreakdown st) + cb_completion (contribution t))"
    and "cb_cacheWrite (acc_costBreakdown st') =
           rd (cb_cacheWrite (acc_costBreakdown st) + cb_cacheWrite (contribution t))"
    and "cb_cacheRead (acc_costBreakdown st') =
           rd (cb_cacheRead (acc_costBreakdown st) + cb_cacheRead (contribution t))"
    and "cb_reasoning (acc_costBreakdown st') =
           rd (cb_reasoning (acc_costBreakdown st) + cb_reasoning (contribution t))"
proof -
  have "cb_prompt (acc_costBreakdown st') =
           rd (cb_prompt (acc_costBreakdown st) + cb_prompt (contribution t)) \<and>
    cb_completion (acc_costBreakdown st') =
           rd (cb_completion (acc_costBreakdown st) + cb_completion (contribution t)) \<and>
    cb_cacheWrite (acc_costBreakdown st') =
           rd (cb_cacheWrite (acc_costBreakdown st) + cb_cacheWrite (contribution t)) \<and>
    cb_cacheRead (acc_costBreakdown st') =
           rd (cb_cacheRead (acc_costBreakdown st) + cb_cacheRead (contribution t)) \<and>
    cb_reasoning (acc_costBreakdown st') =
           rd (cb_reasoning (acc_costBreakdown st) + cb_reasoning (contribution t))"
  proof (cases t rule: processTransaction_outcomes)
    case skipped
    with assms show ?thesis
      by (auto simp: processTransaction_skipped contribution_cases(1) zeroCosts_def doubles_def)
  next
    case (priced modelId c)
    with assms show ?thesis
      by (auto simp: processTransaction_priced contribution_cases(2) addCosts_def fadd_def)
  next
    case (unpriced modelId)
    with assms show ?thesis
      by (auto simp: processTransaction_unpriced contribution_cases(3) addFallback_def
          fallbackCost_def fadd_def fdiv_def zeroCosts_def doubles_def)
  next
    case (raises modelId e)
    with assms show ?thesis by (simp add: processTransaction_raises)
  qed
  then show "cb_prompt (acc_costBreakdown st') =
           rd (cb_prompt (acc_costBreakdown st) + cb_prompt (contribution t))"
    and "cb_completion (acc_costBreakdown st') =
           rd (cb_completion (acc_costBreakdown st) + cb_completion (contribution t))"
    and "cb_cacheWrite (acc_costBreakdown st') =
           rd (cb_cacheWrite (acc_costBreakdown st) + cb_cacheWrite (contribution t))"
    and "cb_cacheRead (acc_costBreakdown st') =
           rd (cb_cacheRead (acc_costBreakdown st) + cb_cacheRead (contribution t))"
    and "cb_reasoning (acc_costBreakdown st') =
           rd (cb_reasoning (acc_costBreakdown st) + cb_reasoning (contribution t))"
    by simp_all
qed

lemma processTransaction_doubles:
  assumes "processTransaction st t = Inr st'" and "doubles (acc_costBreakdown st)"
  shows "doubles (acc_costBreakdown st')"
  unfolding doubles_def processTransaction_costs [OF assms] by simp

lemma processTransactions_costs:
  assumes "processTransactions st ts = Inr st'" and "doubles (acc_costBreakdown st)"
  shows "cb_prompt (acc_costBreakdown st') =
           foldl (\<lambda>a t. rd (a + cb_prompt (contribution t))) (cb_prompt (acc_costBreakdown st)) ts \<and>
    cb_completion (acc_costBreakdown st') =
           foldl (\<lambda>a t. rd (a + cb_completion (contribution t))) (cb_completion (acc_costBreakdown st)) ts \<and>
    cb_cacheWrite (acc_costBreakdown st') =
           foldl (\<lambda>a t. rd (a + cb_cacheWrite (contribution t))) (cb_cacheWrite (acc_costBreakdown st)) ts \<and>
    cb_cacheRead (acc_costBreakdown st') =
           foldl (\<lambda>a t. rd (a + cb_cacheRead (contribution t))) (cb_cacheRead (acc_costBreakdown st)) ts \<and>
    cb_reasoning (acc_costBreakdown st') =
           foldl (\<lambda>a t. rd (a + cb_reasoning (contribution t))) (cb_reasoning (acc_costBreakdown st)) ts"
  using assms
proof (induction ts arbitrary: st)
  case Nil
  then show ?case by simp
next
  case (Cons t ts)
  then obtain st1 where step: "processTransaction st t = Inr st1"
    and rest: "processTransactions st1 ts = Inr st'"
    by (auto split: sum.splits)
  note d1 = processTransaction_doubles [OF step Cons.prems(2)]
  show ?case
    using Cons.IH [OF rest d1] by (simp add: processTransaction_costs [OF step Cons.prems(2)])
qed

text \<open>The sums that the loop holds at its end are the accumulated sums.\<close>

lemma loop_accumulated:
  assumes "processTransactions initial ts = Inr st"
  shows "cb_prompt (acc_costBreakdown st) = accumulated cb_prompt ts"
    and "cb_completion (acc_costBreakdown st) = accumulated cb_completion ts"
    and "cb_cacheWrite (acc_costBreakdown st) = accumulated cb_cacheWrite ts"
    and "cb_cacheRead (acc_costBreakdown st) = accumulated cb_cacheRead ts"
    and "cb_reasoning (acc_costBreakdown st) = accumulated cb_reasoning ts"
proof -
  have "doubles (acc_costBreakdown initial)"
    by (simp add: doubles_def initial_def zeroCosts_def)
  from processTransactions_costs [OF assms this]
  show "cb_prompt (acc_costBreakdown st) = accumulated cb_prompt ts"
    and "cb_completion (acc_costBreakdown st) = accumulated cb_completion ts"
    and "cb_cacheWrite (acc_costBreakdown st) = accumulated cb_cacheWrite ts"
    and "cb_cacheRead (acc_costBreakdown st) = accumulated cb_cacheRead ts"
    and "cb_reasoning (acc_costBreakdown st) = accumulated cb_reasoning ts"
    by (simp_all add: accumulated_def initial_def zeroCosts_def)
qed

text \<open>
  C7. When a summary is returned for a list of records, the list is not empty. Each of
  the five fields of \<^verbatim>\<open>costBreakdown\<close> is the accumulated sum \<open>x\<close> of its category
  rounded to 5 places: \<open>x\<close> times 100000, a double, is rounded to the nearest integer, a
  tie going up, and the integer is divided by 100000. \<^verbatim>\<open>totalCost\<close> is the same
  rounding of the sum of the five accumulated sums, added from left to right.
\<close>

theorem summary_rounded_to_5_places:
  assumes "db (buildQuery cid userId) = Inr (Some ts)"
    and "calculateConversationCost db cid userId = Inr (Some s)"
  shows "ts \<noteq> [] \<and>
    cb_prompt (costBreakdown s) =
      rd (of_int \<lfloor>rd (accumulated cb_prompt ts * 100000) + 1 / 2\<rfloor> / 100000) \<and>
    cb_completion (costBreakdown s) =
      rd (of_int \<lfloor>rd (accumulated cb_completion ts * 100000) + 1 / 2\<rfloor> / 100000) \<and>
    cb_cacheWrite (costBreakdown s) =
      rd (of_int \<lfloor>rd (accumulated cb_cacheWrite ts * 100000) + 1 / 2\<rfloor> / 100000) \<and>
    cb_cacheRead (costBreakdown s) =
      rd (of_int \<lfloor>rd (accumulated cb_cacheRead ts * 100000) + 1 / 2\<rfloor> / 100000) \<and>
    cb_reasoning (costBreakdown s) =
      rd (of_int \<lfloor>rd (accumulated cb_reasoning ts * 100000) + 1 / 2\<rfloor> / 100000) \<and>
    totalCost s =
      rd (of_int
        \<lfloor>rd (rd (rd (rd (rd (accumulated cb_prompt ts + accumulated cb_completion ts)
            + accumulated cb_cacheWrite ts) + accumulated cb_cacheRead ts)
            + accumulated cb_reasoning ts) * 100000) + 1 / 2\<rfloor> / 100000)"
proof -
  from assms have "costOfTransactions cid (Some ts) = Inr (Some s)"
    by (simp add: calculateConversationCost_def)
  then obtain st where ne: "ts \<noteq> []" and st: "processTransactions initial ts = Inr st"
    and sm: "summarize cid st = Inr s"
    by (rule costOfTransactions_Some)
  show ?thesis
    using ne
    by (simp add: summarize_fields(3,4) [OF sm] roundCosts_def round5_def Math_round_def
        sumCosts_def fadd_def fmul_def fdiv_def loop_accumulated [OF st])
qed

lemma gpt4o_lookup:
  "1715558400000 \<le> d \<Longrightarrow>
   getPricingForDate ''gpt-4o'' (Date d) =
     Inr (Some ((period (utc 2024 5 13 0 0 0) 5 15 openai)
       \<lparr>period_notes := Some ''Initial GPT-4o release pricing''\<rparr>))"
  by (simp add: getPricingForDate_def inPeriod_def PRICING_CONFIG_get_def PRICING_CONFIG_def
      period_def utc_def days_from_civil_def)

lemma gpt35_lookup:
  "1706140800000 \<le> d \<Longrightarrow>
   getPricingForDate ''gpt-3.5-turbo'' (Date d) =
     Inr (Some (period (utc 2024 1 25 0 0 0) (5 / 10) (15 / 10) openai))"
  by (simp add: getPricingForDate_def inPeriod_def PRICING_CONFIG_get_def PRICING_CONFIG_def
      period_def utc_def days_from_civil_def)

lemma claude_lookup_from:
  "1718841600000 \<le> d \<Longrightarrow>
   getPricingForDate ''claude-3-5-sonnet'' (Date d) = Inr (Some claude_period)"
  by (simp add: getPricingForDate_def inPeriod_def PRICING_CONFIG_get_def PRICING_CONFIG_def
      claude_period_def with_cache_def period_def utc_def days_from_civil_def)

lemma o1_lookup_from:
  "1733356800000 \<le> d \<Longrightarrow> getPricingForDate ''o1'' (Date d) = Inr (Some o1_period)"
  by (simp add: getPricingForDate_def inPeriod_def PRICING_CONFIG_get_def PRICING_CONFIG_def
      o1_period_def with_reasoning_def period_def utc_def days_from_civil_def)

lemmas priced_costs =
  calculateCost_returns [OF gpt4o_lookup] calculateCost_returns [OF gpt35_lookup]
  calculateCost_returns [OF claude_lookup_from] calculateCost_returns [OF o1_lookup_from]

lemmas cost_eval =
  tx_def currentTokenUsage_def noTokens_def absOr0_def categoryCost_def optionalCategoryCost_def
  cacheWritePrice_def cacheReadPrice_def reasoningPrice_def period_def with_cache_def
  with_reasoning_def claude_period_def o1_period_def utc_def days_from_civil_def zeroCosts_def

lemma accumulated_map:
  "accumulated part ts = foldl (\<lambda>a c. rd (a + part c)) 0 (map contribution ts)"
  by (simp add: accumulated_def foldl_map)

text \<open>
  What the five records of the mixed conversation add: 0.000035 to the prompt cost,
  0.000018 and 0.000037500000000000003 to the completion cost, 0.0019125000000000001 to
  the cache-write and 0.0000903 to the cache-read cost, and 0.03 to the reasoning cost.
\<close>

lemma mixed_contributions:
  "map contribution txs_mixed =
     [zeroCosts\<lparr>cb_prompt := rd (35 / 1000000)\<rparr>,
      zeroCosts\<lparr>cb_completion := rd (18 / 1000000)\<rparr>,
      zeroCosts\<lparr>cb_completion := 2767011611056433 / 73786976294838206464\<rparr>,
      zeroCosts\<lparr>cb_cacheWrite := 2204962377560595 / 1152921504606846976,
                 cb_cacheRead := rd (903 / 10000000)\<rparr>,
      zeroCosts\<lparr>cb_reasoning := rd (3 / 100)\<rparr>]"
  by (simp add: txs_mixed_def contribution_def priced_costs cost_eval rd_eval)

lemma mixed_returns:
  "\<exists>s. calculateConversationCost db_mixed ''conversation'' None = Inr (Some s)"
  unfolding calculateConversationCost_def db_mixed_def sum.case
  by (rule costOfTransactions_returns)
     (simp_all add: txs_mixed_def raisesOn_iff priced_costs tx_def utc_def days_from_civil_def)

lemma gpt4o_prompt_contribution:
  "map contribution (gpt4o_prompt 7) = [zeroCosts\<lparr>cb_prompt := rd (35 / 1000000)\<rparr>]"
  "map contribution (gpt4o_prompt 5) = [zeroCosts\<lparr>cb_prompt := rd (25 / 1000000)\<rparr>]"
  by (simp_all add: gpt4o_prompt_def contribution_def priced_costs cost_eval rd_eval)

lemma gpt4o_prompt_returns:
  "\<exists>s. calculateConversationCost (db_gpt4o_prompt n) ''conversation'' None = Inr (Some s)"
  unfolding calculateConversationCost_def db_gpt4o_prompt_def sum.case
  by (rule costOfTransactions_returns)
     (simp_all add: gpt4o_prompt_def raisesOn_iff priced_costs tx_def utc_def days_from_civil_def)

text \<open>
  Three conversations. One prompt of 7 tokens of \<^verbatim>\<open>gpt-4o\<close>: the sum is the double
  0.000035, its product with 100000 is 3.4999999999999996, and the result is 0.00003. One
  prompt of 5 tokens: the sum is the double 0.000025, the product is 2.5, a tie, and the
  result is 0.00003. The mixed conversation: the five sums 0.000035,
  0.00005550000000000001, 0.0019125000000000001, 0.0000903 and 0.03 become 0.00003,
  0.00006, 0.00191, 0.00009 and 0.03, and their sum 0.0320933 becomes 0.03209.
\<close>

theorem summary_rounded_to_5_places_witness:
  "db_gpt4o_prompt 7 (buildQuery ''conversation'' None) = Inr (Some (gpt4o_prompt 7)) \<and>
   accumulated cb_prompt (gpt4o_prompt 7) = rd (35 / 1000000) \<and>
   rd (rd (35 / 1000000) * 100000) = 7881299347898367 / 2251799813685248 \<and>
   (\<exists>s. calculateConversationCost (db_gpt4o_prompt 7) ''conversation'' None = Inr (Some s) \<and>
      cb_prompt (costBreakdown s) = rd (3 / 100000) \<and> totalCost s = rd (3 / 100000)) \<and>
   db_gpt4o_prompt 5 (buildQuery ''conversation'' None) = Inr (Some (gpt4o_prompt 5)) \<and>
   accumulated cb_prompt (gpt4o_prompt 5) = rd (25 / 1000000) \<and>
   rd (rd (25 / 1000000) * 100000) = 5 / 2 \<and>
   (\<exists>s. calculateConversationCost (db_gpt4o_prompt 5) ''conversation'' None = Inr (Some s) \<and>
      cb_prompt (costBreakdown s) = rd (3 / 100000) \<and> totalCost s = rd (3 / 100000)) \<and>
   db_mixed (buildQuery ''conversation'' None) = Inr (Some txs_mixed) \<and>
   accumulated cb_prompt txs_mixed = rd (35 / 1000000) \<and>
   accumulated cb_completion txs_mixed = 4095177184363521 / 73786976294838206464 \<and>
   accumulated cb_cacheWrite txs_mixed = 2204962377560595 / 1152921504606846976 \<and>
   accumulated cb_cacheRead txs_mixed = rd (903 / 10000000) \<and>
   accumulated cb_reasoning txs_mixed = rd (3 / 100) \<and>
   (\<exists>s. calculateConversationCost db_mixed ''conversation'' None = Inr (Some s) \<and>
      cb_prompt (costBreakdown s) = rd (3 / 100000) \<and>
      cb_completion (costBreakdown s) = rd (6 / 100000) \<and>
      cb_cacheWrite (costBreakdown s) = rd (191 / 100000) \<and>
      cb_cacheRead (costBreakdown s) = rd (9 / 100000) \<and>
      cb_reasoning (costBreakdown s) = rd (3 / 100) \<and>
      totalCost s = rd (3209 / 100000))"
proof -
  have q7: "db_gpt4o_prompt 7 (buildQuery ''conversation'' None) = Inr (Some (gpt4o_prompt 7))"
    and q5: "db_gpt4o_prompt 5 (buildQuery ''conversation'' None) = Inr (Some (gpt4o_prompt 5))"
    and qm: "db_mixed (buildQuery ''conversation'' None) = Inr (Some txs_mixed)"
    by (simp_all add: db_gpt4o_prompt_def db_mixed_def)
  have a7: "accumulated cb_prompt (gpt4o_prompt 7) = rd (35 / 1000000)"
    "accumulated cb_completion (gpt4o_prompt 7) = 0"
    "accumulated cb_cacheWrite (gpt4o_prompt 7) = 0"
    "accumulated cb_cacheRead (gpt4o_prompt 7) = 0"
    "accumulated cb_reasoning (gpt4o_prompt 7) = 0"
    by (simp_all add: accumulated_map gpt4o_prompt_contribution zeroCosts_def)
  have a5: "accumulated cb_prompt (gpt4o_prompt 5) = rd (25 / 1000000)"
    "accumulated cb_completion (gpt4o_prompt 5) = 0"
    "accumulated cb_cacheWrite (gpt4o_prompt 5) = 0"
    "accumulated cb_cacheRead (gpt4o_prompt 5) = 0"
    "accumulated cb_reasoning (gpt4o_prompt 5) = 0"
    by (simp_all add: accumulated_map gpt4o_prompt_contribution zeroCosts_def)
  have am: "accumulated cb_prompt txs_mixed = rd (35 / 1000000)"
    "accumulated cb_completion txs_mixed = 4095177184363521 / 73786976294838206464"
    "accumulated cb_cacheWrite txs_mixed = 2204962377560595 / 1152921504606846976"
    "accumulated cb_cacheRead txs_mixed = rd (903 / 10000000)"
    "accumulated cb_reasoning txs_mixed = rd (3 / 100)"
    by (simp_all add: accumulated_map mixed_contributions zeroCosts_def rd_eval)
  have p: "rd (rd (35 / 1000000) * 100000) = 7881299347898367 / 2251799813685248"
    "rd (rd (25 / 1000000) * 100000) = 5 / 2"
    by (simp_all add: rd_eval)
  obtain s7 where s7: "calculateConversationCost (db_gpt4o_prompt 7) ''conversation'' None = Inr (Some s7)"
    using gpt4o_prompt_returns by blast
  obtain s5 where s5: "calculateConversationCost (db_gpt4o_prompt 5) ''conversation'' None = Inr (Some s5)"
    using gpt4o_prompt_returns by blast
  obtain sm where sm: "calculateConversationCost db_mixed ''conversation'' None = Inr (Some sm)"
    using mixed_returns by blast
  have r7: "cb_prompt (costBreakdown s7) = rd (3 / 100000) \<and> totalCost s7 = rd (3 / 100000)"
    using summary_rounded_to_5_places [OF q7 s7] unfolding a7 by (simp add: rd_eval)
  have r5: "cb_prompt (costBreakdown s5) = rd (3 / 100000) \<and> totalCost s5 = rd (3 / 100000)"
    using summary_rounded_to_5_places [OF q5 s5] unfolding a5 by (simp add: rd_eval)
  have rm: "cb_prompt (costBreakdown sm) = rd (3 / 100000) \<and>
      cb_completion (costBreakdown sm) = rd (6 / 100000) \<and>
      cb_cacheWrite (costBreakdown sm) = rd (191 / 100000) \<and>
      cb_cacheRead (costBreakdown sm) = rd (9 / 100000) \<and>
      cb_reasoning (costBreakdown sm) = rd (3 / 100) \<and>
      totalCost sm = rd (3209 / 100000)"
    using summary_rounded_to_5_places [OF qm sm] unfolding am by (simp add: rd_eval)
  show ?thesis
    using q7 q5 qm a7(1) a5(1) am p s7 s5 sm r7 r5 rm by blast
qed

subsection \<open>Display\<close>

lemma digit_isDigit: "d < 10 \<Longrightarrow> isDigit (digit d)"
  by (simp add: isDigit_def digit_def del: set_simps)

lemma lastDigits_length [simp]: "length (lastDigits k n) = k"
  by (induction k arbitrary: n) simp_all

lemma lastDigits_digits: "list_all isDigit (lastDigits k n)"
  by (induction k arbitrary: n) (simp_all add: digit_isDigit)

lemma decimal_digits: "list_all isDigit (decimal n)"
proof (induction n rule: decimal.induct)
  case (1 n)
  show ?case
  proof (cases "n < 10")
    case True
    then show ?thesis by (subst decimal.simps) (simp add: digit_isDigit)
  next
    case False
    with 1 show ?thesis by (subst decimal.simps) (simp add: digit_isDigit)
  qed
qed

lemma decimal_nonempty: "decimal n \<noteq> []"
  by (subst decimal.simps) simp

lemma toFixedNat_shape:
  assumes "0 < f"
  shows "dollarDecimals f (''$'' @ toFixedNat f x)"
proof -
  define n where "n = nat \<lfloor>x * 10 ^ f + 1 / 2\<rfloor>"
  define ip where "ip = decimal (n div 10 ^ f)"
  define fp where "fp = lastDigits f (n mod 10 ^ f)"
  have r: "toFixedNat f x = ip @ CHR ''.'' # fp"
    using assms by (simp add: toFixedNat_def n_def ip_def fp_def Let_def)
  have len: "length fp = f" by (simp add: fp_def)
  have ip: "ip \<noteq> []" "list_all isDigit ip"
    by (simp_all add: ip_def decimal_nonempty decimal_digits)
  have fp: "list_all isDigit fp" by (simp add: fp_def lastDigits_digits)
  have "length (ip @ CHR ''.'' # fp) - (f + 1) = length ip"
    by (simp add: len)
  moreover have "length (ip @ CHR ''.'' # fp) - f = Suc (length ip)"
    by (simp add: len)
  ultimately show ?thesis
    using ip fp len by (simp add: dollarDecimals_def r nth_append)
qed

text \<open>
  C9. \<^verbatim>\<open>formatCost\<close> returns \<^verbatim>\<open><$0.001\<close> for a cost below 0.001, and otherwise a
  dollar sign, digits, a point and exactly 4 digits for a cost below 0.01, exactly 3
  digits for a cost below 1, and exactly 2 digits from 1 on.
\<close>

theorem formatCost_decimals:
  "(c < 1 / 1000 \<longrightarrow> formatCost c = ''<$0.001'') \<and>
   (1 / 1000 \<le> c \<and> c < 1 / 100 \<longrightarrow> dollarDecimals 4 (formatCost c)) \<and>
   (1 / 100 \<le> c \<and> c < 1 \<longrightarrow> dollarDecimals 3 (formatCost c)) \<and>
   (1 \<le> c \<longrightarrow> dollarDecimals 2 (formatCost c))"
proof -
  have "dollarDecimals f (''$'' @ toFixed f c)" if "0 < f" "0 \<le> c" for f
    using that toFixedNat_shape [of f c] by (simp add: toFixed_def)
  then show ?thesis
    by (auto simp: formatCost_def)
qed

lemma formatCost_values:
  "formatCost (2 / 10000) = ''<$0.001''" "formatCost (3 / 1000) = ''$0.0030''"
  "formatCost (6 / 100) = ''$0.060''" "formatCost (768 / 100) = ''$7.68''"
  by code_simp+

text \<open>The four examples: 0.0002, 0.003, 0.06 and 7.68.\<close>

theorem formatCost_decimals_witness:
  "(2 / 10000 :: rat) < 1 / 1000 \<and> formatCost (2 / 10000) = ''<$0.001'' \<and>
   (1 / 1000 :: rat) \<le> 3 / 1000 \<and> (3 / 1000 :: rat) < 1 / 100 \<and>
   formatCost (3 / 1000) = ''$0.0030'' \<and> dollarDecimals 4 ''$0.0030'' \<and>
   (1 / 100 :: rat) \<le> 6 / 100 \<and> (6 / 100 :: rat) < 1 \<and>
   formatCost (6 / 100) = ''$0.060'' \<and> dollarDecimals 3 ''$0.060'' \<and>
   (1 :: rat) \<le> 768 / 100 \<and>
   formatCost (768 / 100) = ''$7.68'' \<and> dollarDecimals 2 ''$7.68''"
proof -
  note v = formatCost_values
  have i: "(2 / 10000 :: rat) < 1 / 1000" "(1 / 1000 :: rat) \<le> 3 / 1000"
    "(3 / 1000 :: rat) < 1 / 100" "(1 / 100 :: rat) \<le> 6 / 100" "(6 / 100 :: rat) < 1"
    "(1 :: rat) \<le> 768 / 100"
    by simp_all
  have d4: "dollarDecimals 4 ''$0.0030''"
    using formatCost_decimals [of "3 / 1000"] i unfolding v by blast
  have d3: "dollarDecimals 3 ''$0.060''"
    using formatCost_decimals [of "6 / 100"] i unfolding v by blast
  have d2: "dollarDecimals 2 ''$7.68''"
    using formatCost_decimals [of "768 / 100"] i unfolding v by blast
  from i v d4 d3 d2 show ?thesis by blast
qed

subsection \<open>Batches\<close>

lemma getConversationCostDisplay_returns:
  "\<exists>cost. getConversationCostDisplay db cid userId = Inr cost"
  by (simp add: getConversationCostDisplay_def split: sum.splits option.splits)

lemma costOfConversation_fst [simp]: "fst (costOfConversation db userId cid) = cid"
  by (simp add: costOfConversation_def split: sum.splits)

lemma costOfConversation_failure:
  "db (buildQuery cid userId) = Inl e \<Longrightarrow> costOfConversation db userId cid = (cid, None)"
  by (simp add: costOfConversation_def getConversationCostDisplay_def
      calculateConversationCost_def)

lemma assign_other:
  "k \<noteq> ''__proto__'' \<Longrightarrow>
     properties (assign r kv) k = (if fst kv = k then Some (snd kv) else properties r k)"
  by (auto simp: assign_def)

lemma foldl_assign_other:
  assumes "k \<noteq> ''__proto__''"
  shows "properties (foldl assign r (map (costOfConversation db userId) xs)) k =
     (if k \<in> set xs then Some (snd (costOfConversation db userId k)) else properties r k)"
proof (induction xs arbitrary: r)
  case Nil
  then show ?case by simp
next
  case (Cons x xs)
  show ?case
    unfolding list.map foldl_Cons Cons.IH
    by (auto simp: assign_other [OF assms])
qed

lemma batches_other:
  assumes "k \<noteq> ''__proto__''"
  shows "properties (batches db userId ids i r) k =
     (if k \<in> set (drop i ids) then Some (snd (costOfConversation db userId k))
      else properties r k)"
proof (induction db userId ids i r rule: batches.induct)
  case (1 db userId ids i r)
  show ?case
  proof (cases "i < length ids")
    case False
    then show ?thesis by (subst batches.simps) simp
  next
    case True
    have split: "set (drop i ids) = set (take batchSize (drop i ids)) \<union> set (drop (i + batchSize) ids)"
      by (metis add.commute append_take_drop_id drop_drop set_append)
    show ?thesis
      by (subst batches.simps)
         (auto simp: True Let_def "1.IH" [OF True refl refl] foldl_assign_other [OF assms] split)
  qed
qed

text \<open>
  For every other identifier the batch operation behaves as one expects: it never
  raises, the result has exactly the identifiers of the list as keys, each with the
  display of its own conversation, which is \<^verbatim>\<open>null\<close> when the query of that
  conversation fails.
\<close>

lemma getMultipleConversationCosts_entries:
  "\<exists>r. getMultipleConversationCosts db ids userId = Inr r \<and>
     (\<forall>k. k \<noteq> ''__proto__'' \<longrightarrow>
        properties r k =
          (if k \<in> set ids then Some (snd (costOfConversation db userId k)) else None))"
  by (simp add: getMultipleConversationCosts_def batches_other emptyObject_def)

text \<open>
  C8. The claim requires an entry for every identifier of the list. For the identifier
  \<^verbatim>\<open>__proto__\<close> the assignment to \<^verbatim>\<open>results\<close> creates no entry: the result of
  the batch has no such key, where any other identifier without transactions, such as
  \<^verbatim>\<open>abc\<close>, is mapped to \<^verbatim>\<open>null\<close>.
\<close>

theorem batch_drops_proto_key:
  "entryOf ''__proto__'' (getMultipleConversationCosts db_empty [''__proto__''] None) = Inr None \<and>
   entryOf ''abc'' (getMultipleConversationCosts db_empty [''abc''] None) = Inr (Some None)"
proof -
  have c: "costOfConversation db_empty None cid = (cid, None)" for cid
    by (simp add: costOfConversation_def getConversationCostDisplay_def
        calculateConversationCost_def db_empty_def costOfTransactions_def)
  show ?thesis
    by (simp add: entryOf_def getMultipleConversationCosts_def batches.simps batchSize_def
        c assign_def emptyObject_def)
qed

subsection \<open>Flat token counts of the message-based aggregation\<close>

text \<open>
  C4. In the message-based aggregation, a record without model that carries only a flat
  token count adds that count to the prompt total and leaves the completion total as it
  was.
\<close>

theorem flat_count_without_model_is_prompt:
  assumes "ur_model r = None" and "ur_usage r = None" and "ur_tokens r = None"
    and "ur_tokenCount r = Some n"
  shows "tu_promptTokens (accumulateTokens tot r) = tu_promptTokens tot + n \<and>
    tu_completionTokens (accumulateTokens tot r) = tu_completionTokens tot"
  using assms by (simp add: accumulateTokens_def normalizeTokens_def zeroTokens_def Let_def)

text \<open>A user message of 500 tokens counts as 500 prompt tokens.\<close>

theorem flat_count_without_model_is_prompt_witness:
  "ur_model user_message = None \<and> ur_usage user_message = None \<and>
   ur_tokens user_message = None \<and> ur_tokenCount user_message = Some 500 \<and>
   tu_promptTokens (accumulateTokens zeroTokens user_message) = 500 \<and>
   tu_completionTokens (accumulateTokens zeroTokens user_message) = 0"
proof -
  have h: "ur_model user_message = None" "ur_usage user_message = None"
    "ur_tokens user_message = None" "ur_tokenCount user_message = Some 500"
    by (simp_all add: user_message_def)
  from flat_count_without_model_is_prompt [OF h, of zeroTokens] h show ?thesis
    by (simp add: zeroTokens_def)
qed

subsection \<open>Pricing resolver on the models of the table\<close>

lemma scanPeriods_Some:
  assumes "scanPeriods date ps = Some p"
  shows "\<exists>pre post. ps = pre @ p # post \<and> inPeriod date p \<and> list_all (\<lambda>q. \<not> inPeriod date q) pre"
  using assms
proof (induction ps)
  case Nil
  then show ?case by simp
next
  case (Cons q ps)
  show ?case
  proof (cases "inPeriod date q")
    case True
    with Cons.prems have "q = p" by simp
    with True show ?thesis by (intro exI [of _ "[]"] exI [of _ ps]) simp
  next
    case False
    with Cons obtain pre post where "ps = pre @ p # post" "inPeriod date p"
      "list_all (\<lambda>q. \<not> inPeriod date q) pre"
      by auto
    with False show ?thesis by (intro exI [of _ "q # pre"] exI [of _ post]) simp
  qed
qed

lemma scanPeriods_first:
  assumes "inPeriod date p" and "list_all (\<lambda>q. \<not> inPeriod date q) pre"
  shows "scanPeriods date (pre @ p # post) = Some p"
  using assms by (induction pre) simp_all

lemma scanPeriods_None: "scanPeriods date ps = None \<longleftrightarrow> list_all (\<lambda>q. \<not> inPeriod date q) ps"
  by (induction ps) simp_all

lemma inPeriod_Date:
  "inPeriod (Date d) p \<longleftrightarrow>
     effectiveFrom p \<le> d \<and> (case effectiveTo p of None \<Rightarrow> True | Some to \<Rightarrow> d \<le> to)"
  by (simp add: inPeriod_def split: option.splits)

lemma inPeriod_InvalidDate: "\<not> inPeriod InvalidDate p"
  by (simp add: inPeriod_def)

text \<open>
  For a model with an own entry: the first listed period that contains the date, else
  the last listed period. For a name that is neither listed nor inherited: \<^verbatim>\<open>null\<close>.
\<close>

lemma getPricingForDate_listed:
  assumes "PRICING_CONFIG_get modelId = Own modelConfig"
  shows "pricing modelConfig = pre @ p # post \<Longrightarrow> inPeriod date p \<Longrightarrow>
           list_all (\<lambda>q. \<not> inPeriod date q) pre \<Longrightarrow>
           getPricingForDate modelId date = Inr (Some p)"
    and "pricing modelConfig \<noteq> [] \<Longrightarrow> list_all (\<lambda>q. \<not> inPeriod date q) (pricing modelConfig) \<Longrightarrow>
           getPricingForDate modelId date = Inr (Some (last (pricing modelConfig)))"
  using assms
  by (simp_all add: getPricingForDate_def scanPeriods_first lastPeriod_def
      scanPeriods_None [symmetric])

lemma getPricingForDate_unlisted:
  "map_of PRICING_CONFIG modelId = None \<Longrightarrow> modelId \<notin> set Object_prototype_keys \<Longrightarrow>
     getPricingForDate modelId date = Inr None"
  by (simp add: getPricingForDate_def PRICING_CONFIG_get_def)

text \<open>
  The two periods of \<^verbatim>\<open>gpt-3.5-turbo\<close>: 1000 completion tokens cost 0.002 on
  2023-11-10 and 0.0015 on 2024-06-01, and the conversation of the two costs 0.0035.
\<close>

lemma gpt35_periods:
  "getPricingForDate ''gpt-3.5-turbo'' (Date (utc 2023 11 10 0 0 0)) =
     Inr (Some ((period (utc 2023 11 6 0 0 0) 1 2 openai)
       \<lparr>effectiveTo := Some (utc 2024 1 24 23 59 59),
        period_notes := Some ''Pre-January 2024 pricing''\<rparr>))"
  "getPricingForDate ''gpt-3.5-turbo'' (Date (utc 2024 6 1 0 0 0)) =
     Inr (Some (period (utc 2024 1 25 0 0 0) (5 / 10) (15 / 10) openai))"
  by (simp_all add: getPricingForDate_def PRICING_CONFIG_get_def PRICING_CONFIG_def inPeriod_def
      period_def utc_def days_from_civil_def)

lemma gpt35_lookup_old:
  "1699228800000 \<le> d \<Longrightarrow> d \<le> 1706140799000 \<Longrightarrow>
   getPricingForDate ''gpt-3.5-turbo'' (Date d) =
     Inr (Some ((period (utc 2023 11 6 0 0 0) 1 2 openai)
       \<lparr>effectiveTo := Some (utc 2024 1 24 23 59 59),
        period_notes := Some ''Pre-January 2024 pricing''\<rparr>))"
  by (simp add: getPricingForDate_def PRICING_CONFIG_get_def PRICING_CONFIG_def inPeriod_def
      period_def utc_def days_from_civil_def)

lemma gpt35_contributions:
  "map contribution txs_gpt35 =
     [zeroCosts\<lparr>cb_completion := rd (2 / 1000)\<rparr>, zeroCosts\<lparr>cb_completion := rd (15 / 10000)\<rparr>]"
  by (simp add: txs_gpt35_def contribution_def calculateCost_returns [OF gpt35_lookup_old]
      calculateCost_returns [OF gpt35_lookup] cost_eval rd_eval)

lemma gpt35_two_periods_total:
  "totalCostOf (costOfTransactions ''conversation'' (Some txs_gpt35)) = Inr (Some (rd (35 / 10000)))"
proof -
  have "list_all (\<lambda>t. \<not> raisesOn t) txs_gpt35"
    by (simp add: txs_gpt35_def raisesOn_iff tx_def calculateCost_returns [OF gpt35_lookup_old]
        calculateCost_returns [OF gpt35_lookup] utc_def days_from_civil_def)
  then obtain s where s: "costOfTransactions ''conversation'' (Some txs_gpt35) = Inr (Some s)"
    using costOfTransactions_returns [of txs_gpt35 "''conversation''"]
    by (auto simp: txs_gpt35_def)
  then obtain st where st: "processTransactions initial txs_gpt35 = Inr st"
    "summarize ''conversation'' st = Inr s"
    by (rule costOfTransactions_Some)
  have "sumCosts (acc_costBreakdown st) = rd (35 / 10000)"
    by (simp add: sumCosts_def loop_accumulated [OF st(1)] accumulated_map gpt35_contributions
        zeroCosts_def rd_eval)
  then have "totalCost s = round5 (rd (35 / 10000))"
    by (simp only: summarize_fields(4) [OF st(2)])
  also have "\<dots> = rd (35 / 10000)"
    by (simp add: round5_def Math_round_def rd_eval)
  finally show ?thesis
    using s by (simp add: totalCostOf_def)
qed

end
